theory Spec2Isabelle
  imports Main "HOL-Library.Word"
begin

section \<open>Data model of the ILI9225 driver\<close>

type_synonym u8 = "8 word"
type_synonym u16 = "16 word"
type_synonym u32 = "32 word"

text \<open>
  \<^verbatim>\<open>struct ili9225_config\<close> of ili9225.h: the SPI instance and the GPIO numbers of
  the control lines. The driver keeps a private copy (\<^verbatim>\<open>ili9225_cfg\<close>).
\<close>

record ili9225_config =
  spi :: nat
  gpio_din :: nat
  gpio_clk :: nat
  gpio_cs :: nat
  gpio_rs :: nat
  gpio_rst :: nat
  gpio_bl :: nat
  gpio_led :: nat

datatype gpio_function = GPIO_FUNC_SPI | GPIO_FUNC_SIO

text \<open>
  The driver has no result of its own besides what it asks the platform to do. Every
  call of a platform primitive (Pico SDK function, hardware register store, user
  callback) is one event; a driver function is modelled by the list of events it
  issues, in program order.
\<close>

datatype event =
    Gpio_put nat bool
  | Gpio_set_function nat gpio_function
  | Gpio_set_dir nat bool
  | Gpio_set_slew_rate_fast nat
  | Clock_configure_peri nat nat
  | Spi_init nat nat
  | Spi_set_format nat nat
  | Spi_write16_blocking nat "u16 list"
  | Spi_read16
  | Sleep_ms nat
  | Dma_channel_configure nat "u16 list" nat
  | Dma_start_channel_mask u32
  | Dma_channel_set_irq0_enabled nat bool
  | Dma_channel_set_irq1_enabled nat bool
  | Dma_ints0_store u32
  | Dma_ints1_store u32
  | Irq_set_exclusive_handler u32
  | Irq_set_enabled u32 bool
  | User_callback nat

text \<open>
  The ways a call can end without returning: a failed \<^verbatim>\<open>assert\<close> aborts the program
  (ili9225.h leaves NDEBUG undefined), a call through a null function pointer faults.
\<close>

datatype fault = Assertion_failed | Null_function_call

subsection \<open>Register numbers (the MK_ILI9225_REG_ macros)\<close>

definition MK_ILI9225_REG_DRIVER_CODE_READ :: u16 where
  [simp]: "MK_ILI9225_REG_DRIVER_CODE_READ = 0x00"
definition MK_ILI9225_REG_DRIVER_OUTPUT_CTRL :: u16 where
  [simp]: "MK_ILI9225_REG_DRIVER_OUTPUT_CTRL = 0x01"
definition MK_ILI9225_REG_LCD_AC_DRIVING_CTRL :: u16 where
  [simp]: "MK_ILI9225_REG_LCD_AC_DRIVING_CTRL = 0x02"
definition MK_ILI9225_REG_ENTRY_MODE :: u16 where
  [simp]: "MK_ILI9225_REG_ENTRY_MODE = 0x03"
definition MK_ILI9225_REG_DISPLAY_CTRL :: u16 where
  [simp]: "MK_ILI9225_REG_DISPLAY_CTRL = 0x07"
definition MK_ILI9225_REG_BLANK_PERIOD_CTRL :: u16 where
  [simp]: "MK_ILI9225_REG_BLANK_PERIOD_CTRL = 0x08"
definition MK_ILI9225_REG_FRAME_CYCLE_CTRL :: u16 where
  [simp]: "MK_ILI9225_REG_FRAME_CYCLE_CTRL = 0x0B"
definition MK_ILI9225_REG_INTERFACE_CTRL :: u16 where
  [simp]: "MK_ILI9225_REG_INTERFACE_CTRL = 0x0C"
definition MK_ILI9225_REG_OSC_CTRL :: u16 where
  [simp]: "MK_ILI9225_REG_OSC_CTRL = 0x0F"
definition MK_ILI9225_REG_PWR_CTRL1 :: u16 where
  [simp]: "MK_ILI9225_REG_PWR_CTRL1 = 0x10"
definition MK_ILI9225_REG_PWR_CTRL2 :: u16 where
  [simp]: "MK_ILI9225_REG_PWR_CTRL2 = 0x11"
definition MK_ILI9225_REG_PWR_CTRL3 :: u16 where
  [simp]: "MK_ILI9225_REG_PWR_CTRL3 = 0x12"
definition MK_ILI9225_REG_PWR_CTRL4 :: u16 where
  [simp]: "MK_ILI9225_REG_PWR_CTRL4 = 0x13"
definition MK_ILI9225_REG_PWR_CTRL5 :: u16 where
  [simp]: "MK_ILI9225_REG_PWR_CTRL5 = 0x14"
definition MK_ILI9225_REG_VCI_RECYCLING :: u16 where
  [simp]: "MK_ILI9225_REG_VCI_RECYCLING = 0x15"
definition MK_ILI9225_REG_RAM_ADDR_SET1 :: u16 where
  [simp]: "MK_ILI9225_REG_RAM_ADDR_SET1 = 0x20"
definition MK_ILI9225_REG_RAM_ADDR_SET2 :: u16 where
  [simp]: "MK_ILI9225_REG_RAM_ADDR_SET2 = 0x21"
definition MK_ILI9225_REG_GRAM_RW :: u16 where
  [simp]: "MK_ILI9225_REG_GRAM_RW = 0x22"
definition MK_ILI9225_REG_GATE_SCAN_CTRL :: u16 where
  [simp]: "MK_ILI9225_REG_GATE_SCAN_CTRL = 0x30"
definition MK_ILI9225_REG_VERT_SCROLL_CTRL1 :: u16 where
  [simp]: "MK_ILI9225_REG_VERT_SCROLL_CTRL1 = 0x31"
definition MK_ILI9225_REG_VERT_SCROLL_CTRL2 :: u16 where
  [simp]: "MK_ILI9225_REG_VERT_SCROLL_CTRL2 = 0x32"
definition MK_ILI9225_REG_VERT_SCROLL_CTRL3 :: u16 where
  [simp]: "MK_ILI9225_REG_VERT_SCROLL_CTRL3 = 0x33"
definition MK_ILI9225_REG_PART_DRIVING_POS1 :: u16 where
  [simp]: "MK_ILI9225_REG_PART_DRIVING_POS1 = 0x34"
definition MK_ILI9225_REG_PART_DRIVING_POS2 :: u16 where
  [simp]: "MK_ILI9225_REG_PART_DRIVING_POS2 = 0x35"
definition MK_ILI9225_REG_HORI_WIN_ADDR1 :: u16 where
  [simp]: "MK_ILI9225_REG_HORI_WIN_ADDR1 = 0x36"
definition MK_ILI9225_REG_HORI_WIN_ADDR2 :: u16 where
  [simp]: "MK_ILI9225_REG_HORI_WIN_ADDR2 = 0x37"
definition MK_ILI9225_REG_VERT_WIN_ADDR1 :: u16 where
  [simp]: "MK_ILI9225_REG_VERT_WIN_ADDR1 = 0x38"
definition MK_ILI9225_REG_VERT_WIN_ADDR2 :: u16 where
  [simp]: "MK_ILI9225_REG_VERT_WIN_ADDR2 = 0x39"
definition MK_ILI9225_REG_GAMMA_CTRL1 :: u16 where
  [simp]: "MK_ILI9225_REG_GAMMA_CTRL1 = 0x50"
definition MK_ILI9225_REG_GAMMA_CTRL2 :: u16 where
  [simp]: "MK_ILI9225_REG_GAMMA_CTRL2 = 0x51"
definition MK_ILI9225_REG_GAMMA_CTRL3 :: u16 where
  [simp]: "MK_ILI9225_REG_GAMMA_CTRL3 = 0x52"
definition MK_ILI9225_REG_GAMMA_CTRL4 :: u16 where
  [simp]: "MK_ILI9225_REG_GAMMA_CTRL4 = 0x53"
definition MK_ILI9225_REG_GAMMA_CTRL5 :: u16 where
  [simp]: "MK_ILI9225_REG_GAMMA_CTRL5 = 0x54"
definition MK_ILI9225_REG_GAMMA_CTRL6 :: u16 where
  [simp]: "MK_ILI9225_REG_GAMMA_CTRL6 = 0x55"
definition MK_ILI9225_REG_GAMMA_CTRL7 :: u16 where
  [simp]: "MK_ILI9225_REG_GAMMA_CTRL7 = 0x56"
definition MK_ILI9225_REG_GAMMA_CTRL8 :: u16 where
  [simp]: "MK_ILI9225_REG_GAMMA_CTRL8 = 0x57"
definition MK_ILI9225_REG_GAMMA_CTRL9 :: u16 where
  [simp]: "MK_ILI9225_REG_GAMMA_CTRL9 = 0x58"
definition MK_ILI9225_REG_GAMMA_CTRL10 :: u16 where
  [simp]: "MK_ILI9225_REG_GAMMA_CTRL10 = 0x59"

definition SCREEN_SIZE_X :: u32 where
  "SCREEN_SIZE_X = 176"
definition SCREEN_SIZE_Y :: u32 where
  "SCREEN_SIZE_Y = 220"

subsection \<open>Pin and transport primitives of the driver\<close>

definition ili9225_set_led :: "ili9225_config \<Rightarrow> bool \<Rightarrow> event list" where
  "ili9225_set_led cfg state = [Gpio_put (gpio_led cfg) state]"

definition ili9225_set_rst :: "ili9225_config \<Rightarrow> bool \<Rightarrow> event list" where
  "ili9225_set_rst cfg state = [Gpio_put (gpio_rst cfg) state]"

definition ili9225_set_rs :: "ili9225_config \<Rightarrow> bool \<Rightarrow> event list" where
  "ili9225_set_rs cfg state = [Gpio_put (gpio_rs cfg) state]"

definition ili9225_set_cs :: "ili9225_config \<Rightarrow> bool \<Rightarrow> event list" where
  "ili9225_set_cs cfg state = [Gpio_put (gpio_cs cfg) state]"

text \<open>
  \<^verbatim>\<open>ili9225_spi_write16(halfwords, len)\<close> sends the first \<open>len\<close> halfwords of the buffer.
  The buffer is the list of halfwords that the pointer addresses.
\<close>

definition ili9225_spi_write16 :: "ili9225_config \<Rightarrow> u16 list \<Rightarrow> nat \<Rightarrow> event list" where
  "ili9225_spi_write16 cfg halfwords len = [Spi_write16_blocking (spi cfg) (take len halfwords)]"

definition ili9225_delay_ms :: "nat \<Rightarrow> event list" where
  "ili9225_delay_ms ms = [Sleep_ms ms]"

subsection \<open>Register protocol\<close>

definition write_register :: "ili9225_config \<Rightarrow> u16 \<Rightarrow> event list" where
  "write_register cfg cmd =
     ili9225_set_rs cfg False @
     ili9225_set_cs cfg False @
     ili9225_spi_write16 cfg [cmd] 1 @
     ili9225_set_cs cfg True"

definition write_data :: "ili9225_config \<Rightarrow> u16 \<Rightarrow> event list" where
  "write_data cfg dat =
     ili9225_set_rs cfg True @
     ili9225_set_cs cfg False @
     ili9225_spi_write16 cfg [dat] 1 @
     ili9225_set_cs cfg True"

text \<open>
  \<^verbatim>\<open>read_data\<close> and \<^verbatim>\<open>get_register\<close> exist only when MK_ILI9225_READ_AVAILABLE is set.
  \<^verbatim>\<open>ili9225_spi_read16\<close> is external: the halfword it returns is what the device
  answers, here the parameter \<open>answer\<close>.
\<close>

definition read_data :: "ili9225_config \<Rightarrow> u16 \<Rightarrow> event list \<times> u16" where
  "read_data cfg answer =
     (ili9225_set_rs cfg True @
      ili9225_set_cs cfg False @
      [Spi_read16] @
      ili9225_set_cs cfg True, answer)"

definition get_register :: "ili9225_config \<Rightarrow> u16 \<Rightarrow> u16 \<Rightarrow> event list \<times> u16" where
  "get_register cfg answer reg =
     (write_register cfg reg @ fst (read_data cfg answer), snd (read_data cfg answer))"

definition set_register :: "ili9225_config \<Rightarrow> u16 \<Rightarrow> u16 \<Rightarrow> event list" where
  "set_register cfg reg dat = write_register cfg reg @ write_data cfg dat"

subsection \<open>Reading a trace as bus traffic\<close>

text \<open>
  What the controller sees of a trace: a frame is the sequence of halfwords clocked out
  between a falling and the next rising edge of the chip-select pin, each halfword
  tagged with the level of the register-select pin at the time it is sent. \<open>cs\<close> and
  \<open>rs\<close> are the current pin levels, \<open>acc\<close> the halfwords of the open frame.
  Halfwords sent while chip-select is high reach no frame.
\<close>

fun frames_from ::
  "ili9225_config \<Rightarrow> bool \<Rightarrow> bool \<Rightarrow> (bool \<times> u16) list \<Rightarrow> event list \<Rightarrow> (bool \<times> u16) list list"
where
  "frames_from cfg cs rs acc [] = []"
| "frames_from cfg cs rs acc (Gpio_put p v # es) =
     (if p = gpio_cs cfg then
        (if v then (if cs then frames_from cfg True rs [] es
                    else acc # frames_from cfg True rs [] es)
         else frames_from cfg False rs (if cs then [] else acc) es)
      else if p = gpio_rs cfg then frames_from cfg cs v acc es
      else frames_from cfg cs rs acc es)"
| "frames_from cfg cs rs acc (Spi_write16_blocking s ws # es) =
     frames_from cfg cs rs (if cs then acc else acc @ map (Pair rs) ws) es"
| "frames_from cfg cs rs acc (e # es) = frames_from cfg cs rs acc es"

definition frames :: "ili9225_config \<Rightarrow> event list \<Rightarrow> (bool \<times> u16) list list" where
  "frames cfg tr = frames_from cfg True False [] tr"

text \<open>
  The register writes carried by the frames: a halfword sent with register-select low
  loads the index register, a halfword sent with register-select high is written to the
  register the index selects.
\<close>

fun writes_from :: "u16 option \<Rightarrow> (bool \<times> u16) list \<Rightarrow> (u16 \<times> u16) list" where
  "writes_from ir [] = []"
| "writes_from ir ((False, w) # ws) = writes_from (Some w) ws"
| "writes_from ir ((True, w) # ws) =
     (case ir of None \<Rightarrow> writes_from ir ws | Some r \<Rightarrow> (r, w) # writes_from ir ws)"

definition reg_writes :: "ili9225_config \<Rightarrow> event list \<Rightarrow> (u16 \<times> u16) list" where
  "reg_writes cfg tr = writes_from None (concat (frames cfg tr))"

definition written_to :: "u16 \<Rightarrow> (u16 \<times> u16) list \<Rightarrow> u16 list" where
  "written_to r ws = map snd (filter (\<lambda>p. fst p = r) ws)"

subsection \<open>Driver state\<close>

text \<open>
  The file-scope variables of ili9225.c. \<open>dma_tx\<close> is never assigned and keeps its
  initial value 0. \<open>f_dma_finish_callback\<close> is a function pointer, \<open>None\<close> when null.
\<close>

record dma_channel_config =
  transfer_data_size :: nat
  dreq_spi_tx :: "nat option"

record driver =
  ili9225_cfg :: ili9225_config
  dma_irq :: u32
  dma_tx :: nat
  c :: dma_channel_config
  f_dma_finish_callback :: "nat option"

text \<open>The interrupt numbers of the two DMA notification lines in the RP2040 SDK.\<close>

definition DMA_IRQ_0 :: u32 where
  "DMA_IRQ_0 = 11"
definition DMA_IRQ_1 :: u32 where
  "DMA_IRQ_1 = 12"

definition power_on_driver :: "ili9225_config \<Rightarrow> driver" where
  "power_on_driver z =
     \<lparr>ili9225_cfg = z, dma_irq = 0, dma_tx = 0,
      c = \<lparr>transfer_data_size = 0, dreq_spi_tx = None\<rparr>,
      f_dma_finish_callback = None\<rparr>"

subsection \<open>Initialisation\<close>

text \<open>The first block of \<^verbatim>\<open>ili9225_init\<close>: pin functions, directions, clock and SPI set-up.\<close>

definition init_platform :: "ili9225_config \<Rightarrow> event list" where
  "init_platform cfg =
     [Gpio_set_function (gpio_din cfg) GPIO_FUNC_SPI,
      Gpio_set_function (gpio_clk cfg) GPIO_FUNC_SPI,
      Gpio_set_function (gpio_cs cfg) GPIO_FUNC_SIO,
      Gpio_set_function (gpio_clk cfg) GPIO_FUNC_SPI,
      Gpio_set_function (gpio_din cfg) GPIO_FUNC_SPI,
      Gpio_set_function (gpio_rs cfg) GPIO_FUNC_SIO,
      Gpio_set_function (gpio_rst cfg) GPIO_FUNC_SIO,
      Gpio_set_function (gpio_led cfg) GPIO_FUNC_SIO,
      Gpio_set_dir (gpio_cs cfg) True,
      Gpio_set_dir (gpio_rs cfg) True,
      Gpio_set_dir (gpio_rst cfg) True,
      Gpio_set_dir (gpio_led cfg) True,
      Gpio_set_slew_rate_fast (gpio_clk cfg),
      Gpio_set_slew_rate_fast (gpio_din cfg),
      Clock_configure_peri (125 * 1000 * 1000) (125 * 1000 * 1000),
      Spi_init (spi cfg) (30 * 1000 * 1000),
      Spi_set_format (spi cfg) 16]"

text \<open>
  The three \<^verbatim>\<open>for\<close> loops of \<^verbatim>\<open>ili9225_init\<close> walk constant arrays from index 0 and
  call \<^verbatim>\<open>set_register\<close> on each element.
\<close>

fun set_registers :: "ili9225_config \<Rightarrow> (u16 \<times> u16) list \<Rightarrow> event list" where
  "set_registers cfg [] = []"
| "set_registers cfg ((reg, dat) # ps) = set_register cfg reg dat @ set_registers cfg ps"

definition init_zero_regs :: "u8 list" where
  "init_zero_regs = [0x10, 0x11, 0x12, 0x13, 0x14]"

definition init_power_regs :: "u8 list" where
  "init_power_regs = [0x11, 0x12, 0x13, 0x14, 0x10]"

definition init_power_dat :: "u16 list" where
  "init_power_dat = [0x0018, 0x6121, 0x006F, 0x495F, 0x0800]"

definition init_cmds :: "(u16 \<times> u16) list" where
  "init_cmds =
     [(MK_ILI9225_REG_DRIVER_OUTPUT_CTRL, 0x011C),
      (MK_ILI9225_REG_LCD_AC_DRIVING_CTRL, 0x0100),
      (MK_ILI9225_REG_ENTRY_MODE, 0x1018),
      (MK_ILI9225_REG_DISPLAY_CTRL, 0x0000),
      (MK_ILI9225_REG_BLANK_PERIOD_CTRL, 0x0808),
      (MK_ILI9225_REG_FRAME_CYCLE_CTRL, 0x1100),
      (MK_ILI9225_REG_INTERFACE_CTRL, 0x0000),
      (MK_ILI9225_REG_OSC_CTRL, 0x0701),
      (MK_ILI9225_REG_VCI_RECYCLING, 0x0020),
      (MK_ILI9225_REG_RAM_ADDR_SET1, 0x0000),
      (MK_ILI9225_REG_RAM_ADDR_SET2, 0x0000),
      (MK_ILI9225_REG_GATE_SCAN_CTRL, 0x0000),
      (MK_ILI9225_REG_VERT_SCROLL_CTRL1, 0x00DB),
      (MK_ILI9225_REG_VERT_SCROLL_CTRL2, 0x0000),
      (MK_ILI9225_REG_VERT_SCROLL_CTRL3, 0x0000),
      (MK_ILI9225_REG_PART_DRIVING_POS1, 0x00DB),
      (MK_ILI9225_REG_PART_DRIVING_POS2, 0x0000),
      (MK_ILI9225_REG_HORI_WIN_ADDR1, 0x00AF),
      (MK_ILI9225_REG_HORI_WIN_ADDR2, 0x0000),
      (MK_ILI9225_REG_VERT_WIN_ADDR1, 0x00DB),
      (MK_ILI9225_REG_VERT_WIN_ADDR2, 0x0000),
      (MK_ILI9225_REG_GAMMA_CTRL1, 0x0000),
      (MK_ILI9225_REG_GAMMA_CTRL2, 0x0808),
      (MK_ILI9225_REG_GAMMA_CTRL3, 0x080A),
      (MK_ILI9225_REG_GAMMA_CTRL4, 0x000A),
      (MK_ILI9225_REG_GAMMA_CTRL5, 0x0A08),
      (MK_ILI9225_REG_GAMMA_CTRL6, 0x0808),
      (MK_ILI9225_REG_GAMMA_CTRL7, 0x0000),
      (MK_ILI9225_REG_GAMMA_CTRL8, 0x0A00),
      (MK_ILI9225_REG_GAMMA_CTRL9, 0x0710),
      (MK_ILI9225_REG_GAMMA_CTRL10, 0x0710),
      (MK_ILI9225_REG_DISPLAY_CTRL, 0x0012)]"

text \<open>
  The identification check at the end of \<^verbatim>\<open>ili9225_init\<close>. \<open>read_available\<close> is the
  compile-time flag MK_ILI9225_READ_AVAILABLE, \<open>answer\<close> the halfword the device returns.
  \<^verbatim>\<open>ret\<close> is an \<^verbatim>\<open>unsigned\<close> (32 bits) that starts at 0x9225; the subtraction is unsigned.
\<close>

definition init_id_check :: "bool \<Rightarrow> u16 \<Rightarrow> ili9225_config \<Rightarrow> event list \<times> u32" where
  "init_id_check read_available answer cfg =
     (if read_available then
        (fst (get_register cfg answer MK_ILI9225_REG_DRIVER_CODE_READ),
         0x9225 - ucast (snd (get_register cfg answer MK_ILI9225_REG_DRIVER_CODE_READ)))
      else ([], 0))"

definition ili9225_init_trace :: "bool \<Rightarrow> u16 \<Rightarrow> ili9225_config \<Rightarrow> event list" where
  "ili9225_init_trace read_available answer cfg =
     init_platform cfg @
     ili9225_set_rst cfg True @
     ili9225_set_cs cfg True @
     ili9225_set_rs cfg False @
     ili9225_delay_ms 1 @
     ili9225_set_rst cfg False @
     ili9225_delay_ms 10 @
     ili9225_set_rst cfg True @
     ili9225_delay_ms 50 @
     ili9225_set_led cfg False @
     set_registers cfg (map (\<lambda>r. (ucast r, 0x0000)) init_zero_regs) @
     ili9225_delay_ms 40 @
     set_registers cfg (zip (map ucast init_power_regs) init_power_dat) @
     ili9225_delay_ms 10 @
     set_register cfg MK_ILI9225_REG_PWR_CTRL2 0x103B @
     ili9225_delay_ms 50 @
     set_registers cfg init_cmds @
     ili9225_delay_ms 50 @
     set_register cfg MK_ILI9225_REG_DISPLAY_CTRL 0x1017 @
     ili9225_delay_ms 50 @
     ili9225_set_led cfg True @
     fst (init_id_check read_available answer cfg)"

text \<open>
  \<^verbatim>\<open>ili9225_init(config)\<close>: copies the configuration, runs the sequence, prepares the DMA
  channel configuration and returns \<^verbatim>\<open>ret\<close>. The result is the trace, the return value
  and the driver state after the call.
\<close>

definition ili9225_init ::
  "bool \<Rightarrow> u16 \<Rightarrow> ili9225_config \<Rightarrow> driver \<Rightarrow> event list \<times> u32 \<times> driver"
where
  "ili9225_init read_available answer config d =
     (ili9225_init_trace read_available answer config,
      snd (init_id_check read_available answer config),
      d\<lparr>ili9225_cfg := config,
        c := \<lparr>transfer_data_size = 16, dreq_spi_tx = Some (spi config)\<rparr>\<rparr>)"

subsection \<open>Window and address\<close>

definition ili9225_set_window ::
  "ili9225_config \<Rightarrow> u16 \<Rightarrow> u16 \<Rightarrow> u16 \<Rightarrow> u16 \<Rightarrow> event list \<times> (fault + unit)"
where
  "ili9225_set_window cfg hor_start hor_end vert_start vert_end =
     (if \<not> hor_start < hor_end then ([], Inl Assertion_failed)
      else if \<not> (ucast hor_end :: u32) < SCREEN_SIZE_X then ([], Inl Assertion_failed)
      else if \<not> vert_start < vert_end then ([], Inl Assertion_failed)
      else if \<not> (ucast vert_end :: u32) < SCREEN_SIZE_Y then ([], Inl Assertion_failed)
      else
        (set_register cfg MK_ILI9225_REG_HORI_WIN_ADDR1 hor_end @
         set_register cfg MK_ILI9225_REG_HORI_WIN_ADDR2 hor_start @
         set_register cfg MK_ILI9225_REG_VERT_WIN_ADDR1 vert_end @
         set_register cfg MK_ILI9225_REG_VERT_WIN_ADDR2 vert_start @
         set_register cfg MK_ILI9225_REG_RAM_ADDR_SET1 hor_start @
         set_register cfg MK_ILI9225_REG_RAM_ADDR_SET2 vert_start, Inr ()))"

definition ili9225_set_address :: "ili9225_config \<Rightarrow> u8 \<Rightarrow> u8 \<Rightarrow> event list" where
  "ili9225_set_address cfg x y =
     set_register cfg MK_ILI9225_REG_RAM_ADDR_SET1 (ucast x) @
     set_register cfg MK_ILI9225_REG_RAM_ADDR_SET2 (ucast y)"

subsection \<open>Pixel writers\<close>

text \<open>
  \<^verbatim>\<open>ili9225_write_pixels(pixels, nmemb)\<close>: \<open>pixels\<close> is \<open>None\<close> for a null pointer;
  \<^verbatim>\<open>uint_fast16_t\<close> is a 32-bit unsigned on the target.
\<close>

definition ili9225_write_pixels ::
  "ili9225_config \<Rightarrow> u16 list option \<Rightarrow> u32 \<Rightarrow> event list \<times> (fault + unit)"
where
  "ili9225_write_pixels cfg pixels nmemb =
     (case pixels of
        None \<Rightarrow> ([], Inl Assertion_failed)
      | Some buf \<Rightarrow>
          if \<not> nmemb > 0 then ([], Inl Assertion_failed)
          else
            (write_register cfg MK_ILI9225_REG_GRAM_RW @
             ili9225_set_rs cfg True @
             ili9225_set_cs cfg False @
             ili9225_spi_write16 cfg buf (unat nmemb) @
             ili9225_set_cs cfg True, Inr ()))"

definition ili9225_write_pixels_start :: "ili9225_config \<Rightarrow> event list" where
  "ili9225_write_pixels_start cfg =
     write_register cfg MK_ILI9225_REG_GRAM_RW @
     ili9225_set_rs cfg True @
     ili9225_set_cs cfg False"

definition ili9225_write_pixels_end :: "ili9225_config \<Rightarrow> event list" where
  "ili9225_write_pixels_end cfg = ili9225_set_cs cfg True"

text \<open>
  The loop of \<^verbatim>\<open>ili9225_fill_rect\<close>: \<^verbatim>\<open>for(uint16_t i=0;i<w*h;i++)\<close>. The counter is a
  16-bit word, the bound \<^verbatim>\<open>w*h\<close> is computed in \<^verbatim>\<open>int\<close> from two 8-bit values, so it is at
  most 255 * 255 and the counter reaches it before it could wrap.
\<close>

function fill_loop :: "ili9225_config \<Rightarrow> u16 \<Rightarrow> u8 \<Rightarrow> u8 \<Rightarrow> u16 \<Rightarrow> event list" where
  "fill_loop cfg i w h color =
     (if uint i < uint w * uint h
      then ili9225_spi_write16 cfg [color] 1 @ fill_loop cfg (i + 1) w h color
      else [])"
  by pat_completeness auto
termination
proof (relation "measure (\<lambda>(cfg, i, w, h, color). nat (uint w * uint h - uint i))")
  show "wf (measure (\<lambda>(cfg, i, w, h, color). nat (uint w * uint h - uint i)))"
    by simp
next
  fix cfg :: ili9225_config and i :: u16 and w h :: u8 and color :: u16
  assume lt: "uint i < uint w * uint h"
  have "uint w \<le> 255" "uint h \<le> 255" "0 \<le> uint w" "0 \<le> uint h"
    using uint_lt2p [of w] uint_lt2p [of h] by simp_all
  then have "uint w * uint h \<le> 255 * 255"
    by (intro mult_mono) simp_all
  with lt have "uint i + 1 < 2 ^ 16" by simp
  then have "uint (i + 1) = uint i + 1"
    by (simp add: uint_word_ariths take_bit_int_eq_self)
  with lt show "((cfg, i + 1, w, h, color), (cfg, i, w, h, color))
      \<in> measure (\<lambda>(cfg, i, w, h, color). nat (uint w * uint h - uint i))"
    by simp
qed

declare fill_loop.simps [simp del]

text \<open>
  The arguments of \<^verbatim>\<open>set_register\<close> are \<^verbatim>\<open>int\<close> expressions over the 8-bit parameters,
  converted to \<^verbatim>\<open>uint16_t\<close> at the call.
\<close>

definition ili9225_fill_rect :: "ili9225_config \<Rightarrow> u8 \<Rightarrow> u8 \<Rightarrow> u8 \<Rightarrow> u8 \<Rightarrow> u16 \<Rightarrow> event list" where
  "ili9225_fill_rect cfg x y w h color =
     set_register cfg MK_ILI9225_REG_ENTRY_MODE 0x1018 @
     set_register cfg MK_ILI9225_REG_HORI_WIN_ADDR1 (word_of_int (uint y + uint h - 1)) @
     set_register cfg MK_ILI9225_REG_HORI_WIN_ADDR2 (ucast y) @
     set_register cfg MK_ILI9225_REG_VERT_WIN_ADDR1 (word_of_int (219 - uint x)) @
     set_register cfg MK_ILI9225_REG_VERT_WIN_ADDR2 (word_of_int (219 - (uint x + uint w - 1))) @
     set_register cfg MK_ILI9225_REG_RAM_ADDR_SET1 (ucast y) @
     set_register cfg MK_ILI9225_REG_RAM_ADDR_SET2 (word_of_int (219 - uint x)) @
     write_register cfg MK_ILI9225_REG_GRAM_RW @
     ili9225_set_rs cfg True @
     ili9225_set_cs cfg False @
     fill_loop cfg 0 w h color @
     ili9225_set_cs cfg True"

definition ili9225_fill :: "ili9225_config \<Rightarrow> u16 \<Rightarrow> event list" where
  "ili9225_fill cfg color = ili9225_fill_rect cfg 0 0 220 176 color"

definition ili9225_pixel :: "ili9225_config \<Rightarrow> u8 \<Rightarrow> u8 \<Rightarrow> u16 \<Rightarrow> event list" where
  "ili9225_pixel cfg x y color =
     set_register cfg MK_ILI9225_REG_RAM_ADDR_SET1 (ucast y) @
     set_register cfg MK_ILI9225_REG_RAM_ADDR_SET2 (word_of_int (219 - uint x)) @
     set_register cfg MK_ILI9225_REG_GRAM_RW color"

definition ili9225_blit :: "ili9225_config \<Rightarrow> u16 list \<Rightarrow> u8 \<Rightarrow> u8 \<Rightarrow> u8 \<Rightarrow> u8 \<Rightarrow> event list" where
  "ili9225_blit cfg fbuf x y w h =
     set_register cfg MK_ILI9225_REG_ENTRY_MODE 0x1018 @
     set_register cfg MK_ILI9225_REG_HORI_WIN_ADDR1 (word_of_int (uint y + uint h - 1)) @
     set_register cfg MK_ILI9225_REG_HORI_WIN_ADDR2 (ucast y) @
     set_register cfg MK_ILI9225_REG_VERT_WIN_ADDR1 (word_of_int (219 - uint x)) @
     set_register cfg MK_ILI9225_REG_VERT_WIN_ADDR2 (word_of_int (219 - (uint x + uint w - 1))) @
     set_register cfg MK_ILI9225_REG_RAM_ADDR_SET1 (ucast y) @
     set_register cfg MK_ILI9225_REG_RAM_ADDR_SET2 (word_of_int (219 - uint x)) @
     write_register cfg MK_ILI9225_REG_GRAM_RW @
     ili9225_set_rs cfg True @
     ili9225_set_cs cfg False @
     ili9225_spi_write16 cfg fbuf (nat (uint w * uint h)) @
     ili9225_set_cs cfg True"

subsection \<open>Asynchronous transfer\<close>

definition ili9225_dma_write :: "driver \<Rightarrow> u16 list \<Rightarrow> nat \<Rightarrow> event list" where
  "ili9225_dma_write d data len =
     ili9225_write_pixels_start (ili9225_cfg d) @
     [Dma_channel_configure (dma_tx d) data len,
      Dma_start_channel_mask (push_bit (dma_tx d) 1)]"

text \<open>
  \<^verbatim>\<open>ili9225_set_dma_irq_handler(num, cb)\<close>: for a line other than the two DMA lines it
  returns before touching anything.
\<close>

definition ili9225_set_dma_irq_handler ::
  "u32 \<Rightarrow> nat option \<Rightarrow> driver \<Rightarrow> event list \<times> driver"
where
  "ili9225_set_dma_irq_handler num cb d =
     (if num = DMA_IRQ_0 then
        ([Dma_channel_set_irq0_enabled (dma_tx d) True,
          Irq_set_exclusive_handler num, Irq_set_enabled num True],
         d\<lparr>dma_irq := num, f_dma_finish_callback := cb\<rparr>)
      else if num = DMA_IRQ_1 then
        ([Dma_channel_set_irq1_enabled (dma_tx d) True,
          Irq_set_exclusive_handler num, Irq_set_enabled num True],
         d\<lparr>dma_irq := num, f_dma_finish_callback := cb\<rparr>)
      else ([], d))"

text \<open>
  The interrupt handler \<^verbatim>\<open>_ili9225_dma_finish_callback\<close>. The call through
  \<open>f_dma_finish_callback\<close> is the event \<open>User_callback\<close>; through a null pointer it
  is a fault. When \<open>dma_irq\<close> is neither of the two lines the handler returns before
  the call.
\<close>

definition call_finish_callback :: "driver \<Rightarrow> event list \<times> (fault + unit)" where
  "call_finish_callback d =
     (case f_dma_finish_callback d of
        None \<Rightarrow> ([], Inl Null_function_call)
      | Some cb \<Rightarrow> ([User_callback cb], Inr ()))"

definition ili9225_dma_finish_callback :: "driver \<Rightarrow> event list \<times> (fault + unit)" where
  "ili9225_dma_finish_callback d =
     (if dma_irq d = DMA_IRQ_0 then
        (ili9225_write_pixels_end (ili9225_cfg d) @
         [Dma_channel_set_irq0_enabled (dma_tx d) True,
          Dma_ints0_store (push_bit (dma_tx d) 1)] @
         fst (call_finish_callback d), snd (call_finish_callback d))
      else if dma_irq d = DMA_IRQ_1 then
        (ili9225_write_pixels_end (ili9225_cfg d) @
         [Dma_channel_set_irq0_enabled (dma_tx d) True,
          Dma_ints1_store (push_bit (dma_tx d) 1)] @
         fst (call_finish_callback d), snd (call_finish_callback d))
      else (ili9225_write_pixels_end (ili9225_cfg d), Inr ()))"

text \<open>
  The histories of the driver: the trace issued so far and the driver state, starting
  from power-on, under any sequence of calls of the public functions. The interrupt
  handler runs only on a line where it has been installed, that is after an
  \<open>Irq_set_exclusive_handler\<close> event.
\<close>

inductive history :: "event list \<Rightarrow> driver \<Rightarrow> bool" where
  power_on: "history [] (power_on_driver z)"
| init: "history tr d \<Longrightarrow>
     history (tr @ fst (ili9225_init ra answer config d))
             (snd (snd (ili9225_init ra answer config d)))"
| set_handler: "history tr d \<Longrightarrow>
     history (tr @ fst (ili9225_set_dma_irq_handler num cb d))
             (snd (ili9225_set_dma_irq_handler num cb d))"
| set_window: "history tr d \<Longrightarrow>
     history (tr @ fst (ili9225_set_window (ili9225_cfg d) hs he vs ve)) d"
| set_address: "history tr d \<Longrightarrow>
     history (tr @ ili9225_set_address (ili9225_cfg d) x y) d"
| write_pixels: "history tr d \<Longrightarrow>
     history (tr @ fst (ili9225_write_pixels (ili9225_cfg d) pixels nmemb)) d"
| fill_rect: "history tr d \<Longrightarrow>
     history (tr @ ili9225_fill_rect (ili9225_cfg d) x y w h color) d"
| pixel: "history tr d \<Longrightarrow>
     history (tr @ ili9225_pixel (ili9225_cfg d) x y color) d"
| blit: "history tr d \<Longrightarrow>
     history (tr @ ili9225_blit (ili9225_cfg d) fbuf x y w h) d"
| dma_write: "history tr d \<Longrightarrow>
     history (tr @ ili9225_dma_write d data len) d"
| interrupt: "history tr d \<Longrightarrow> Irq_set_exclusive_handler num \<in> set tr \<Longrightarrow>
     history (tr @ fst (ili9225_dma_finish_callback d)) d"

subsection \<open>Reading a trace: delays and callbacks\<close>

fun delays :: "event list \<Rightarrow> nat list" where
  "delays [] = []"
| "delays (Sleep_ms ms # es) = ms # delays es"
| "delays (e # es) = delays es"

fun callbacks :: "event list \<Rightarrow> nat list" where
  "callbacks [] = []"
| "callbacks (User_callback cb # es) = cb # callbacks es"
| "callbacks (e # es) = callbacks es"

fun installs_handler :: "event \<Rightarrow> bool" where
  "installs_handler (Irq_set_exclusive_handler num) = True"
| "installs_handler e = False"

text \<open>The pin assignment of the example programs (tests/hello-display, tests/hello-dma).\<close>

definition lcd_config :: ili9225_config where
  "lcd_config = \<lparr>spi = 0, gpio_din = 19, gpio_clk = 18, gpio_cs = 17, gpio_rs = 20,
                  gpio_rst = 21, gpio_bl = 0, gpio_led = 22\<rparr>"

section \<open>Register protocol: properties\<close>

lemmas pin_defs =
  ili9225_set_led_def ili9225_set_rst_def ili9225_set_rs_def ili9225_set_cs_def
  ili9225_spi_write16_def ili9225_delay_ms_def

lemma set_register_trace:
  "set_register cfg reg dat =
     [Gpio_put (gpio_rs cfg) False, Gpio_put (gpio_cs cfg) False,
      Spi_write16_blocking (spi cfg) [reg], Gpio_put (gpio_cs cfg) True,
      Gpio_put (gpio_rs cfg) True, Gpio_put (gpio_cs cfg) False,
      Spi_write16_blocking (spi cfg) [dat], Gpio_put (gpio_cs cfg) True]"
  by (simp add: set_register_def write_register_def write_data_def pin_defs)

lemma frames_from_set_register:
  assumes "gpio_cs cfg \<noteq> gpio_rs cfg"
  shows "frames_from cfg True rs [] (set_register cfg reg dat @ es) =
           [(False, reg)] # [(True, dat)] # frames_from cfg True True [] es"
  using assms by (auto simp: set_register_trace)

lemma frames_from_write_register:
  assumes "gpio_cs cfg \<noteq> gpio_rs cfg"
  shows "frames_from cfg True rs [] (write_register cfg reg @ es) =
           [(False, reg)] # frames_from cfg True False [] es"
  using assms by (auto simp: write_register_def pin_defs)

lemma frames_from_words:
  "frames_from cfg False rs acc (replicate n (Spi_write16_blocking s [v]) @ es) =
     frames_from cfg False rs (acc @ replicate n (rs, v)) es"
  by (induction n arbitrary: acc) simp_all

lemma fill_loop_unroll:
  "fill_loop cfg i w h color =
     replicate (nat (uint w * uint h - uint i)) (Spi_write16_blocking (spi cfg) [color])"
proof (induction cfg i w h color rule: fill_loop.induct)
  case (1 cfg i w h color)
  show ?case
  proof (cases "uint i < uint w * uint h")
    case False
    then show ?thesis by (simp add: fill_loop.simps [of cfg i])
  next
    case True
    have "uint w \<le> 255" "uint h \<le> 255" "0 \<le> uint w" "0 \<le> uint h"
      using uint_lt2p [of w] uint_lt2p [of h] by simp_all
    then have "uint w * uint h \<le> 255 * 255"
      by (intro mult_mono) simp_all
    with True have "uint i + 1 < 2 ^ 16" by simp
    then have step: "uint (i + 1) = uint i + 1"
      by (simp add: uint_word_ariths take_bit_int_eq_self)
    from True have "nat (uint w * uint h - uint i) = Suc (nat (uint w * uint h - (uint i + 1)))"
      by simp
    with True "1" step show ?thesis
      by (simp add: fill_loop.simps [of cfg i] pin_defs)
  qed
qed

lemma writes_from_data:
  "writes_from (Some r) (map (Pair True) ws @ rest) = map (Pair r) ws @ writes_from (Some r) rest"
  by (induction ws) simp_all

lemma frames_fill_rect:
  assumes "gpio_cs cfg \<noteq> gpio_rs cfg"
  shows "frames cfg (ili9225_fill_rect cfg x y w h color) =
     [[(False, 0x03)], [(True, 0x1018)],
      [(False, 0x36)], [(True, word_of_int (uint y + uint h - 1))],
      [(False, 0x37)], [(True, ucast y)],
      [(False, 0x38)], [(True, word_of_int (219 - uint x))],
      [(False, 0x39)], [(True, word_of_int (219 - (uint x + uint w - 1)))],
      [(False, 0x20)], [(True, ucast y)],
      [(False, 0x21)], [(True, word_of_int (219 - uint x))],
      [(False, 0x22)], replicate (nat (uint w * uint h)) (True, color)]"
  using assms assms [symmetric]
  by (simp add: frames_def ili9225_fill_rect_def frames_from_set_register
      frames_from_write_register fill_loop_unroll frames_from_words
      ili9225_set_rs_def ili9225_set_cs_def)

lemma frames_blit:
  assumes "gpio_cs cfg \<noteq> gpio_rs cfg"
  shows "frames cfg (ili9225_blit cfg fbuf x y w h) =
     [[(False, 0x03)], [(True, 0x1018)],
      [(False, 0x36)], [(True, word_of_int (uint y + uint h - 1))],
      [(False, 0x37)], [(True, ucast y)],
      [(False, 0x38)], [(True, word_of_int (219 - uint x))],
      [(False, 0x39)], [(True, word_of_int (219 - (uint x + uint w - 1)))],
      [(False, 0x20)], [(True, ucast y)],
      [(False, 0x21)], [(True, word_of_int (219 - uint x))],
      [(False, 0x22)], map (Pair True) (take (nat (uint w * uint h)) fbuf)]"
  using assms assms [symmetric]
  by (simp add: frames_def ili9225_blit_def frames_from_set_register
      frames_from_write_register pin_defs)

lemma reg_writes_fill_rect:
  assumes "gpio_cs cfg \<noteq> gpio_rs cfg"
  shows "reg_writes cfg (ili9225_fill_rect cfg x y w h color) =
     [(0x03, 0x1018),
      (0x36, word_of_int (uint y + uint h - 1)),
      (0x37, ucast y),
      (0x38, word_of_int (219 - uint x)),
      (0x39, word_of_int (219 - (uint x + uint w - 1))),
      (0x20, ucast y),
      (0x21, word_of_int (219 - uint x))] @
     replicate (nat (uint w * uint h)) (0x22, color)"
  using writes_from_data [of "0x22" "replicate (nat (uint w * uint h)) color" "[]"]
  by (simp add: reg_writes_def frames_fill_rect [OF assms] map_replicate_const)

lemma reg_writes_blit:
  assumes "gpio_cs cfg \<noteq> gpio_rs cfg"
  shows "reg_writes cfg (ili9225_blit cfg fbuf x y w h) =
     [(0x03, 0x1018),
      (0x36, word_of_int (uint y + uint h - 1)),
      (0x37, ucast y),
      (0x38, word_of_int (219 - uint x)),
      (0x39, word_of_int (219 - (uint x + uint w - 1))),
      (0x20, ucast y),
      (0x21, word_of_int (219 - uint x))] @
     map (Pair 0x22) (take (nat (uint w * uint h)) fbuf)"
  using writes_from_data [of "0x22" "take (nat (uint w * uint h)) fbuf" "[]"]
  by (simp add: reg_writes_def frames_blit [OF assms])

lemma delays_append: "delays (a @ b) = delays a @ delays b"
  by (induction a rule: delays.induct) simp_all

lemma callbacks_append: "callbacks (a @ b) = callbacks a @ callbacks b"
  by (induction a rule: callbacks.induct) simp_all

lemma delays_set_register: "delays (set_register cfg r v) = []"
  by (simp add: set_register_trace)

lemma delays_set_registers: "delays (set_registers cfg ps) = []"
  by (induction ps) (auto simp: delays_append delays_set_register)

lemma delays_init_platform: "delays (init_platform cfg) = []"
  by (simp add: init_platform_def)

lemma get_register_trace:
  "fst (get_register cfg answer reg) =
     [Gpio_put (gpio_rs cfg) False, Gpio_put (gpio_cs cfg) False,
      Spi_write16_blocking (spi cfg) [reg], Gpio_put (gpio_cs cfg) True,
      Gpio_put (gpio_rs cfg) True, Gpio_put (gpio_cs cfg) False,
      Spi_read16, Gpio_put (gpio_cs cfg) True]"
  by (simp add: get_register_def read_data_def write_register_def pin_defs)

lemma get_register_value: "snd (get_register cfg answer reg) = answer"
  by (simp add: get_register_def read_data_def)

lemma delays_init_id_check: "delays (fst (init_id_check ra answer cfg)) = []"
  by (simp add: init_id_check_def get_register_trace)

lemma init_zero_stage:
  "set_registers cfg (map (\<lambda>r. (ucast r, 0x0000)) init_zero_regs) =
     set_register cfg 0x10 0 @ set_register cfg 0x11 0 @ set_register cfg 0x12 0 @
     set_register cfg 0x13 0 @ set_register cfg 0x14 0"
  by (simp add: init_zero_regs_def)

lemma init_power_stage:
  "set_registers cfg (zip (map ucast init_power_regs) init_power_dat) =
     set_register cfg 0x11 0x0018 @ set_register cfg 0x12 0x6121 @
     set_register cfg 0x13 0x006F @ set_register cfg 0x14 0x495F @
     set_register cfg 0x10 0x0800"
  by (simp add: init_power_regs_def init_power_dat_def)

section \<open>Initialisation sequence\<close>

lemma init_batch_stage:
  "set_registers cfg init_cmds =
     set_register cfg 0x01 0x011C @ set_register cfg 0x02 0x0100 @
     set_register cfg 0x03 0x1018 @ set_register cfg 0x07 0x0000 @
     set_register cfg 0x08 0x0808 @ set_register cfg 0x0B 0x1100 @
     set_register cfg 0x0C 0x0000 @ set_register cfg 0x0F 0x0701 @
     set_register cfg 0x15 0x0020 @ set_register cfg 0x20 0x0000 @
     set_register cfg 0x21 0x0000 @ set_register cfg 0x30 0x0000 @
     set_register cfg 0x31 0x00DB @ set_register cfg 0x32 0x0000 @
     set_register cfg 0x33 0x0000 @ set_register cfg 0x34 0x00DB @
     set_register cfg 0x35 0x0000 @ set_register cfg 0x36 0x00AF @
     set_register cfg 0x37 0x0000 @ set_register cfg 0x38 0x00DB @
     set_register cfg 0x39 0x0000 @ set_register cfg 0x50 0x0000 @
     set_register cfg 0x51 0x0808 @ set_register cfg 0x52 0x080A @
     set_register cfg 0x53 0x000A @ set_register cfg 0x54 0x0A08 @
     set_register cfg 0x55 0x0808 @ set_register cfg 0x56 0x0000 @
     set_register cfg 0x57 0x0A00 @ set_register cfg 0x58 0x0710 @
     set_register cfg 0x59 0x0710 @ set_register cfg 0x07 0x0012"
  by (simp add: init_cmds_def)

lemma init_trace_stages:
  "ili9225_init_trace ra answer cfg =
     init_platform cfg @
     [Gpio_put (gpio_rst cfg) True, Gpio_put (gpio_cs cfg) True, Gpio_put (gpio_rs cfg) False,
      Sleep_ms 1,
      Gpio_put (gpio_rst cfg) False, Sleep_ms 10,
      Gpio_put (gpio_rst cfg) True, Sleep_ms 50,
      Gpio_put (gpio_led cfg) False] @
     set_register cfg 0x10 0 @ set_register cfg 0x11 0 @ set_register cfg 0x12 0 @
     set_register cfg 0x13 0 @ set_register cfg 0x14 0 @
     [Sleep_ms 40] @
     set_register cfg 0x11 0x0018 @ set_register cfg 0x12 0x6121 @
     set_register cfg 0x13 0x006F @ set_register cfg 0x14 0x495F @
     set_register cfg 0x10 0x0800 @
     [Sleep_ms 10] @
     set_register cfg 0x11 0x103B @
     [Sleep_ms 50] @
     set_registers cfg init_cmds @
     [Sleep_ms 50] @
     set_register cfg 0x07 0x1017 @
     [Sleep_ms 50, Gpio_put (gpio_led cfg) True] @
     fst (init_id_check ra answer cfg)"
  by (simp add: ili9225_init_trace_def init_zero_stage init_power_stage pin_defs)

lemma frames_from_id_check:
  assumes "gpio_cs cfg \<noteq> gpio_rs cfg"
  shows "concat (frames_from cfg True rs [] (fst (init_id_check ra answer cfg))) =
     (if ra then [(False, 0x00)] else [])"
  using assms assms [symmetric]
  by (simp add: init_id_check_def get_register_trace)

lemma reg_writes_init:
  assumes "gpio_cs cfg \<noteq> gpio_rs cfg"
    and "gpio_rst cfg \<noteq> gpio_cs cfg" and "gpio_rst cfg \<noteq> gpio_rs cfg"
    and "gpio_led cfg \<noteq> gpio_cs cfg" and "gpio_led cfg \<noteq> gpio_rs cfg"
  shows "reg_writes cfg (ili9225_init_trace ra answer cfg) =
     [(0x10, 0), (0x11, 0), (0x12, 0), (0x13, 0), (0x14, 0),
      (0x11, 0x0018), (0x12, 0x6121), (0x13, 0x006F), (0x14, 0x495F), (0x10, 0x0800),
      (0x11, 0x103B),
      (0x01, 0x011C), (0x02, 0x0100), (0x03, 0x1018), (0x07, 0x0000), (0x08, 0x0808),
      (0x0B, 0x1100), (0x0C, 0x0000), (0x0F, 0x0701), (0x15, 0x0020), (0x20, 0x0000),
      (0x21, 0x0000), (0x30, 0x0000), (0x31, 0x00DB), (0x32, 0x0000), (0x33, 0x0000),
      (0x34, 0x00DB), (0x35, 0x0000), (0x36, 0x00AF), (0x37, 0x0000), (0x38, 0x00DB),
      (0x39, 0x0000), (0x50, 0x0000), (0x51, 0x0808), (0x52, 0x080A), (0x53, 0x000A),
      (0x54, 0x0A08), (0x55, 0x0808), (0x56, 0x0000), (0x57, 0x0A00), (0x58, 0x0710),
      (0x59, 0x0710), (0x07, 0x0012),
      (0x07, 0x1017)]"
  using assms assms(1) [symmetric]
  by (simp add: reg_writes_def frames_def init_trace_stages init_batch_stage init_platform_def
      frames_from_set_register frames_from_id_check)

text \<open>
  Claim C1. \<^verbatim>\<open>ili9225_init\<close> runs the start-up sequence in this order: idle pins
  (reset high, chip-select high, register-select low) and a 1 ms delay; reset low and
  10 ms; reset high and 50 ms; backlight off; the five power-control registers set to
  zero and 40 ms; the power-control registers programmed with their operating values
  and 10 ms; automatic boosting enabled and 50 ms; one batch of 32 register writes
  (driver output, driving waveform, entry mode, display control, blanking, frame
  cycle, interface, oscillator, VCI recycling, RAM address, gate scan, scroll, partial
  driving, window, gamma, display control) with no delay inside it and 50 ms; display
  on and 50 ms; backlight on. Every register write is the two-frame transaction of
  \<^verbatim>\<open>set_register\<close>. The delays issued are 1, 10, 50, 40, 10, 50, 50 and 50 ms, in
  that order, and the controller receives the 44 register writes listed, in that order.
\<close>

theorem init_startup_sequence:
  "fst (ili9225_init ra answer cfg d) =
     init_platform cfg @
     [Gpio_put (gpio_rst cfg) True, Gpio_put (gpio_cs cfg) True, Gpio_put (gpio_rs cfg) False,
      Sleep_ms 1,
      Gpio_put (gpio_rst cfg) False, Sleep_ms 10,
      Gpio_put (gpio_rst cfg) True, Sleep_ms 50,
      Gpio_put (gpio_led cfg) False] @
     set_register cfg MK_ILI9225_REG_PWR_CTRL1 0 @
     set_register cfg MK_ILI9225_REG_PWR_CTRL2 0 @
     set_register cfg MK_ILI9225_REG_PWR_CTRL3 0 @
     set_register cfg MK_ILI9225_REG_PWR_CTRL4 0 @
     set_register cfg MK_ILI9225_REG_PWR_CTRL5 0 @
     [Sleep_ms 40] @
     set_register cfg MK_ILI9225_REG_PWR_CTRL2 0x0018 @
     set_register cfg MK_ILI9225_REG_PWR_CTRL3 0x6121 @
     set_register cfg MK_ILI9225_REG_PWR_CTRL4 0x006F @
     set_register cfg MK_ILI9225_REG_PWR_CTRL5 0x495F @
     set_register cfg MK_ILI9225_REG_PWR_CTRL1 0x0800 @
     [Sleep_ms 10] @
     set_register cfg MK_ILI9225_REG_PWR_CTRL2 0x103B @
     [Sleep_ms 50] @
     set_register cfg MK_ILI9225_REG_DRIVER_OUTPUT_CTRL 0x011C @
     set_register cfg MK_ILI9225_REG_LCD_AC_DRIVING_CTRL 0x0100 @
     set_register cfg MK_ILI9225_REG_ENTRY_MODE 0x1018 @
     set_register cfg MK_ILI9225_REG_DISPLAY_CTRL 0x0000 @
     set_register cfg MK_ILI9225_REG_BLANK_PERIOD_CTRL 0x0808 @
     set_register cfg MK_ILI9225_REG_FRAME_CYCLE_CTRL 0x1100 @
     set_register cfg MK_ILI9225_REG_INTERFACE_CTRL 0x0000 @
     set_register cfg MK_ILI9225_REG_OSC_CTRL 0x0701 @
     set_register cfg MK_ILI9225_REG_VCI_RECYCLING 0x0020 @
     set_register cfg MK_ILI9225_REG_RAM_ADDR_SET1 0x0000 @
     set_register cfg MK_ILI9225_REG_RAM_ADDR_SET2 0x0000 @
     set_register cfg MK_ILI9225_REG_GATE_SCAN_CTRL 0x0000 @
     set_register cfg MK_ILI9225_REG_VERT_SCROLL_CTRL1 0x00DB @
     set_register cfg MK_ILI9225_REG_VERT_SCROLL_CTRL2 0x0000 @
     set_register cfg MK_ILI9225_REG_VERT_SCROLL_CTRL3 0x0000 @
     set_register cfg MK_ILI9225_REG_PART_DRIVING_POS1 0x00DB @
     set_register cfg MK_ILI9225_REG_PART_DRIVING_POS2 0x0000 @
     set_register cfg MK_ILI9225_REG_HORI_WIN_ADDR1 0x00AF @
     set_register cfg MK_ILI9225_REG_HORI_WIN_ADDR2 0x0000 @
     set_register cfg MK_ILI9225_REG_VERT_WIN_ADDR1 0x00DB @
     set_register cfg MK_ILI9225_REG_VERT_WIN_ADDR2 0x0000 @
     set_register cfg MK_ILI9225_REG_GAMMA_CTRL1 0x0000 @
     set_register cfg MK_ILI9225_REG_GAMMA_CTRL2 0x0808 @
     set_register cfg MK_ILI9225_REG_GAMMA_CTRL3 0x080A @
     set_register cfg MK_ILI9225_REG_GAMMA_CTRL4 0x000A @
     set_register cfg MK_ILI9225_REG_GAMMA_CTRL5 0x0A08 @
     set_register cfg MK_ILI9225_REG_GAMMA_CTRL6 0x0808 @
     set_register cfg MK_ILI9225_REG_GAMMA_CTRL7 0x0000 @
     set_register cfg MK_ILI9225_REG_GAMMA_CTRL8 0x0A00 @
     set_register cfg MK_ILI9225_REG_GAMMA_CTRL9 0x0710 @
     set_register cfg MK_ILI9225_REG_GAMMA_CTRL10 0x0710 @
     set_register cfg MK_ILI9225_REG_DISPLAY_CTRL 0x0012 @
     [Sleep_ms 50] @
     set_register cfg MK_ILI9225_REG_DISPLAY_CTRL 0x1017 @
     [Sleep_ms 50,
      Gpio_put (gpio_led cfg) True] @
     fst (init_id_check ra answer cfg) \<and>
   set_register cfg r v =
     [Gpio_put (gpio_rs cfg) False, Gpio_put (gpio_cs cfg) False,
      Spi_write16_blocking (spi cfg) [r], Gpio_put (gpio_cs cfg) True,
      Gpio_put (gpio_rs cfg) True, Gpio_put (gpio_cs cfg) False,
      Spi_write16_blocking (spi cfg) [v], Gpio_put (gpio_cs cfg) True] \<and>
   delays (set_registers cfg init_cmds) = [] \<and>
   delays (fst (ili9225_init ra answer cfg d)) = [1, 10, 50, 40, 10, 50, 50, 50] \<and>
   (gpio_cs cfg \<noteq> gpio_rs cfg \<and>
    gpio_rst cfg \<noteq> gpio_cs cfg \<and> gpio_rst cfg \<noteq> gpio_rs cfg \<and>
    gpio_led cfg \<noteq> gpio_cs cfg \<and> gpio_led cfg \<noteq> gpio_rs cfg \<longrightarrow>
    reg_writes cfg (fst (ili9225_init ra answer cfg d)) =
      [(MK_ILI9225_REG_PWR_CTRL1, 0), (MK_ILI9225_REG_PWR_CTRL2, 0),
       (MK_ILI9225_REG_PWR_CTRL3, 0), (MK_ILI9225_REG_PWR_CTRL4, 0),
       (MK_ILI9225_REG_PWR_CTRL5, 0),
       (MK_ILI9225_REG_PWR_CTRL2, 0x0018), (MK_ILI9225_REG_PWR_CTRL3, 0x6121),
       (MK_ILI9225_REG_PWR_CTRL4, 0x006F), (MK_ILI9225_REG_PWR_CTRL5, 0x495F),
       (MK_ILI9225_REG_PWR_CTRL1, 0x0800),
       (MK_ILI9225_REG_PWR_CTRL2, 0x103B),
       (MK_ILI9225_REG_DRIVER_OUTPUT_CTRL, 0x011C),
       (MK_ILI9225_REG_LCD_AC_DRIVING_CTRL, 0x0100),
       (MK_ILI9225_REG_ENTRY_MODE, 0x1018),
       (MK_ILI9225_REG_DISPLAY_CTRL, 0x0000),
       (MK_ILI9225_REG_BLANK_PERIOD_CTRL, 0x0808),
       (MK_ILI9225_REG_FRAME_CYCLE_CTRL, 0x1100),
       (MK_ILI9225_REG_INTERFACE_CTRL, 0x0000),
       (MK_ILI9225_REG_OSC_CTRL, 0x0701),
       (MK_ILI9225_REG_VCI_RECYCLING, 0x0020),
       (MK_ILI9225_REG_RAM_ADDR_SET1, 0x0000),
       (MK_ILI9225_REG_RAM_ADDR_SET2, 0x0000),
       (MK_ILI9225_REG_GATE_SCAN_CTRL, 0x0000),
       (MK_ILI9225_REG_VERT_SCROLL_CTRL1, 0x00DB),
       (MK_ILI9225_REG_VERT_SCROLL_CTRL2, 0x0000),
       (MK_ILI9225_REG_VERT_SCROLL_CTRL3, 0x0000),
       (MK_ILI9225_REG_PART_DRIVING_POS1, 0x00DB),
       (MK_ILI9225_REG_PART_DRIVING_POS2, 0x0000),
       (MK_ILI9225_REG_HORI_WIN_ADDR1, 0x00AF),
       (MK_ILI9225_REG_HORI_WIN_ADDR2, 0x0000),
       (MK_ILI9225_REG_VERT_WIN_ADDR1, 0x00DB),
       (MK_ILI9225_REG_VERT_WIN_ADDR2, 0x0000),
       (MK_ILI9225_REG_GAMMA_CTRL1, 0x0000),
       (MK_ILI9225_REG_GAMMA_CTRL2, 0x0808),
       (MK_ILI9225_REG_GAMMA_CTRL3, 0x080A),
       (MK_ILI9225_REG_GAMMA_CTRL4, 0x000A),
       (MK_ILI9225_REG_GAMMA_CTRL5, 0x0A08),
       (MK_ILI9225_REG_GAMMA_CTRL6, 0x0808),
       (MK_ILI9225_REG_GAMMA_CTRL7, 0x0000),
       (MK_ILI9225_REG_GAMMA_CTRL8, 0x0A00),
       (MK_ILI9225_REG_GAMMA_CTRL9, 0x0710),
       (MK_ILI9225_REG_GAMMA_CTRL10, 0x0710),
       (MK_ILI9225_REG_DISPLAY_CTRL, 0x0012),
       (MK_ILI9225_REG_DISPLAY_CTRL, 0x1017)])"
proof -
  have tr: "fst (ili9225_init ra answer cfg d) = ili9225_init_trace ra answer cfg"
    by (simp add: ili9225_init_def)
  have a: "ili9225_init_trace ra answer cfg =
     init_platform cfg @
     [Gpio_put (gpio_rst cfg) True, Gpio_put (gpio_cs cfg) True, Gpio_put (gpio_rs cfg) False,
      Sleep_ms 1,
      Gpio_put (gpio_rst cfg) False, Sleep_ms 10,
      Gpio_put (gpio_rst cfg) True, Sleep_ms 50,
      Gpio_put (gpio_led cfg) False] @
     set_register cfg 0x10 0 @ set_register cfg 0x11 0 @ set_register cfg 0x12 0 @
     set_register cfg 0x13 0 @ set_register cfg 0x14 0 @
     [Sleep_ms 40] @
     set_register cfg 0x11 0x0018 @ set_register cfg 0x12 0x6121 @
     set_register cfg 0x13 0x006F @ set_register cfg 0x14 0x495F @
     set_register cfg 0x10 0x0800 @
     [Sleep_ms 10] @
     set_register cfg 0x11 0x103B @
     [Sleep_ms 50] @
     (set_register cfg 0x01 0x011C @ set_register cfg 0x02 0x0100 @
      set_register cfg 0x03 0x1018 @ set_register cfg 0x07 0x0000 @
      set_register cfg 0x08 0x0808 @ set_register cfg 0x0B 0x1100 @
      set_register cfg 0x0C 0x0000 @ set_register cfg 0x0F 0x0701 @
      set_register cfg 0x15 0x0020 @ set_register cfg 0x20 0x0000 @
      set_register cfg 0x21 0x0000 @ set_register cfg 0x30 0x0000 @
      set_register cfg 0x31 0x00DB @ set_register cfg 0x32 0x0000 @
      set_register cfg 0x33 0x0000 @ set_register cfg 0x34 0x00DB @
      set_register cfg 0x35 0x0000 @ set_register cfg 0x36 0x00AF @
      set_register cfg 0x37 0x0000 @ set_register cfg 0x38 0x00DB @
      set_register cfg 0x39 0x0000 @ set_register cfg 0x50 0x0000 @
      set_register cfg 0x51 0x0808 @ set_register cfg 0x52 0x080A @
      set_register cfg 0x53 0x000A @ set_register cfg 0x54 0x0A08 @
      set_register cfg 0x55 0x0808 @ set_register cfg 0x56 0x0000 @
      set_register cfg 0x57 0x0A00 @ set_register cfg 0x58 0x0710 @
      set_register cfg 0x59 0x0710 @ set_register cfg 0x07 0x0012) @
     [Sleep_ms 50] @
     set_register cfg 0x07 0x1017 @
     [Sleep_ms 50, Gpio_put (gpio_led cfg) True] @
     fst (init_id_check ra answer cfg)"
    unfolding init_trace_stages init_batch_stage ..
  have b: "delays (ili9225_init_trace ra answer cfg) = [1, 10, 50, 40, 10, 50, 50, 50]"
    unfolding init_trace_stages
    by (simp add: delays_append delays_set_register delays_set_registers
        delays_init_platform delays_init_id_check)
  have c: "reg_writes cfg (ili9225_init_trace ra answer cfg) =
     [(0x10, 0), (0x11, 0), (0x12, 0), (0x13, 0), (0x14, 0),
      (0x11, 0x0018), (0x12, 0x6121), (0x13, 0x006F), (0x14, 0x495F), (0x10, 0x0800),
      (0x11, 0x103B),
      (0x01, 0x011C), (0x02, 0x0100), (0x03, 0x1018), (0x07, 0x0000), (0x08, 0x0808),
      (0x0B, 0x1100), (0x0C, 0x0000), (0x0F, 0x0701), (0x15, 0x0020), (0x20, 0x0000),
      (0x21, 0x0000), (0x30, 0x0000), (0x31, 0x00DB), (0x32, 0x0000), (0x33, 0x0000),
      (0x34, 0x00DB), (0x35, 0x0000), (0x36, 0x00AF), (0x37, 0x0000), (0x38, 0x00DB),
      (0x39, 0x0000), (0x50, 0x0000), (0x51, 0x0808), (0x52, 0x080A), (0x53, 0x000A),
      (0x54, 0x0A08), (0x55, 0x0808), (0x56, 0x0000), (0x57, 0x0A00), (0x58, 0x0710),
      (0x59, 0x0710), (0x07, 0x0012),
      (0x07, 0x1017)]"
    if "gpio_cs cfg \<noteq> gpio_rs cfg"
      and "gpio_rst cfg \<noteq> gpio_cs cfg" and "gpio_rst cfg \<noteq> gpio_rs cfg"
      and "gpio_led cfg \<noteq> gpio_cs cfg" and "gpio_led cfg \<noteq> gpio_rs cfg"
    using that by (rule reg_writes_init)
  show ?thesis
    unfolding tr
    using a b c by (simp add: delays_set_registers set_register_trace [symmetric])
qed

theorem init_startup_sequence_witness:
  "length (reg_writes lcd_config
     (fst (ili9225_init False 0 lcd_config (power_on_driver lcd_config)))) = 44 \<and>
   written_to 0x07 (reg_writes lcd_config
     (fst (ili9225_init False 0 lcd_config (power_on_driver lcd_config)))) =
     [0x0000, 0x0012, 0x1017] \<and>
   written_to 0x11 (reg_writes lcd_config
     (fst (ili9225_init False 0 lcd_config (power_on_driver lcd_config)))) =
     [0x0000, 0x0018, 0x103B]"
proof -
  have pins: "gpio_cs lcd_config \<noteq> gpio_rs lcd_config \<and>
      gpio_rst lcd_config \<noteq> gpio_cs lcd_config \<and> gpio_rst lcd_config \<noteq> gpio_rs lcd_config \<and>
      gpio_led lcd_config \<noteq> gpio_cs lcd_config \<and> gpio_led lcd_config \<noteq> gpio_rs lcd_config"
    by (simp add: lcd_config_def)
  note rw = init_startup_sequence [of False 0 lcd_config "power_on_driver lcd_config" 0 0,
      THEN conjunct2, THEN conjunct2, THEN conjunct2, THEN conjunct2, THEN mp, OF pins]
  show ?thesis
    unfolding rw by (simp add: written_to_def)
qed

section \<open>Register protocol: the two phases\<close>

lemma frames_set_register:
  assumes "gpio_cs cfg \<noteq> gpio_rs cfg"
  shows "frames cfg (set_register cfg reg dat) = [[(False, reg)], [(True, dat)]]"
  using frames_from_set_register [OF assms, of False reg dat "[]"]
  by (simp add: frames_def)

text \<open>
  Claim C7. \<^verbatim>\<open>set_register(addr, value)\<close> is \<^verbatim>\<open>write_register(addr)\<close> followed by
  \<^verbatim>\<open>write_data(value)\<close>: register-select low, chip-select low, one halfword, chip-select
  high; then register-select high, chip-select low, one halfword, chip-select high.
  On the bus these are two frames of one halfword each, the address with
  register-select low and the value with register-select high.
\<close>

theorem set_register_two_phases:
  "set_register cfg addr v = write_register cfg addr @ write_data cfg v \<and>
   write_register cfg addr =
     [Gpio_put (gpio_rs cfg) False, Gpio_put (gpio_cs cfg) False,
      Spi_write16_blocking (spi cfg) [addr], Gpio_put (gpio_cs cfg) True] \<and>
   write_data cfg v =
     [Gpio_put (gpio_rs cfg) True, Gpio_put (gpio_cs cfg) False,
      Spi_write16_blocking (spi cfg) [v], Gpio_put (gpio_cs cfg) True] \<and>
   (gpio_cs cfg \<noteq> gpio_rs cfg \<longrightarrow>
      frames cfg (set_register cfg addr v) = [[(False, addr)], [(True, v)]])"
  by (simp add: frames_set_register)
     (simp add: set_register_def write_register_def write_data_def pin_defs)

theorem set_register_two_phases_witness:
  "gpio_cs lcd_config \<noteq> gpio_rs lcd_config \<and>
   frames lcd_config (set_register lcd_config 0x38 0xDB) = [[(False, 0x38)], [(True, 0xDB)]]"
proof -
  have pins: "gpio_cs lcd_config \<noteq> gpio_rs lcd_config"
    by (simp add: lcd_config_def)
  with set_register_two_phases [of lcd_config "0x38" "0xDB"] show ?thesis
    by blast
qed

section \<open>Synchronous pixel writers\<close>

text \<open>
  Claim C5. For a non-null buffer and \<open>n > 0\<close>, \<^verbatim>\<open>ili9225_write_pixels(buffer, n)\<close>
  returns normally; after the frame that selects the GRAM register it lowers
  chip-select once, sends the first \<open>n\<close> halfwords of the buffer with register-select
  high, and raises chip-select once: the data phase is one frame of exactly \<open>n\<close>
  halfwords, whatever \<open>n\<close> is.
\<close>

theorem write_pixels_one_burst:
  assumes "gpio_cs cfg \<noteq> gpio_rs cfg" and "0 < n" and "unat n \<le> length buf"
  shows "snd (ili9225_write_pixels cfg (Some buf) n) = Inr () \<and>
     fst (ili9225_write_pixels cfg (Some buf) n) =
       write_register cfg MK_ILI9225_REG_GRAM_RW @
       [Gpio_put (gpio_rs cfg) True, Gpio_put (gpio_cs cfg) False,
        Spi_write16_blocking (spi cfg) (take (unat n) buf),
        Gpio_put (gpio_cs cfg) True] \<and>
     frames cfg (fst (ili9225_write_pixels cfg (Some buf) n)) =
       [[(False, MK_ILI9225_REG_GRAM_RW)], map (Pair True) (take (unat n) buf)] \<and>
     length (take (unat n) buf) = unat n"
  using assms assms(1) [symmetric]
  by (simp add: ili9225_write_pixels_def frames_def frames_from_write_register pin_defs)

theorem write_pixels_one_burst_witness:
  "frames lcd_config (fst (ili9225_write_pixels lcd_config (Some [1, 2, 3]) 3)) =
     [[(False, 0x22)], [(True, 1), (True, 2), (True, 3)]]"
proof -
  have pins: "gpio_cs lcd_config \<noteq> gpio_rs lcd_config"
    by (simp add: lcd_config_def)
  from write_pixels_one_burst [OF pins, of 3 "[1, 2, 3]", simplified] show ?thesis
    by blast
qed

text \<open>
  Claim C8. \<^verbatim>\<open>ili9225_fill(color)\<close> is \<^verbatim>\<open>ili9225_fill_rect(0,0,220,176,color)\<close>, and that
  call sends, after the window set-up and the selection of the GRAM register, one
  frame of exactly 220 * 176 halfwords, all equal to \<open>color\<close>: the pixel data lie
  between one falling and one rising edge of chip-select.
\<close>

theorem fill_single_burst:
  assumes "gpio_cs cfg \<noteq> gpio_rs cfg"
  shows "ili9225_fill cfg color = ili9225_fill_rect cfg 0 0 220 176 color \<and>
     frames cfg (ili9225_fill_rect cfg 0 0 220 176 color) =
       [[(False, 0x03)], [(True, 0x1018)],
        [(False, 0x36)], [(True, 175)],
        [(False, 0x37)], [(True, 0)],
        [(False, 0x38)], [(True, 219)],
        [(False, 0x39)], [(True, 0)],
        [(False, 0x20)], [(True, 0)],
        [(False, 0x21)], [(True, 219)],
        [(False, MK_ILI9225_REG_GRAM_RW)], replicate (220 * 176) (True, color)] \<and>
     written_to MK_ILI9225_REG_GRAM_RW (reg_writes cfg (ili9225_fill cfg color)) =
       replicate (220 * 176) color"
  by (simp add: ili9225_fill_def frames_fill_rect [OF assms] reg_writes_fill_rect [OF assms]
      written_to_def)

theorem fill_single_burst_witness:
  "written_to 0x22 (reg_writes lcd_config (ili9225_fill lcd_config 0xFFFF)) =
     replicate 38720 0xFFFF"
proof -
  have pins: "gpio_cs lcd_config \<noteq> gpio_rs lcd_config"
    by (simp add: lcd_config_def)
  from fill_single_burst [OF pins, of "0xFFFF", simplified] show ?thesis
    by blast
qed

section \<open>Coordinate inversion of the rectangle helpers\<close>

lemma written_to_Cons:
  "written_to r ((r', v) # ws) = (if r' = r then v # written_to r ws else written_to r ws)"
  by (simp add: written_to_def)

lemma written_to_Nil: "written_to r [] = []"
  by (simp add: written_to_def)

lemma written_to_other:
  "r' \<noteq> r \<Longrightarrow> written_to r (map (Pair r') vs) = []"
  by (induction vs) (simp_all add: written_to_def)

lemma written_to_append: "written_to r (a @ b) = written_to r a @ written_to r b"
  by (simp add: written_to_def)

lemma uint_u16_of_int: "uint (word_of_int k :: u16) = k mod 65536"
  by (simp add: uint_word_of_int take_bit_eq_mod)

text \<open>
  Claim C3, as stated, at an input: with \<open>x = 100\<close> (inside the screen) and
  \<open>w = 200\<close>, \<^verbatim>\<open>ili9225_fill_rect\<close> writes 65456 to the second vertical-window
  register, not \<open>219 - (x + w - 1) = -80\<close>: the \<^verbatim>\<open>int\<close> expression is converted to
  \<^verbatim>\<open>uint16_t\<close> at the call of \<^verbatim>\<open>set_register\<close>.
\<close>

theorem vertical_window_wraps:
  "\<not> (map uint (written_to MK_ILI9225_REG_VERT_WIN_ADDR2
          (reg_writes lcd_config (ili9225_fill_rect lcd_config 100 0 200 1 0))) =
        [219 - (uint (100 :: u8) + uint (200 :: u8) - 1)])"
proof -
  have pins: "gpio_cs lcd_config \<noteq> gpio_rs lcd_config"
    by (simp add: lcd_config_def)
  show ?thesis
    by (simp add: reg_writes_fill_rect [OF pins] written_to_Cons written_to_Nil
        written_to_append written_to_def)
qed

text \<open>
  Claim C3, amended. For every \<open>x \<le> 219\<close> and every \<open>y\<close>, \<open>h\<close>,
  \<^verbatim>\<open>ili9225_fill_rect\<close> and \<^verbatim>\<open>ili9225_blit\<close> write \<open>219 - x\<close> to the first
  vertical-window register, once; to the second they write \<open>219 - (x + w - 1)\<close>
  reduced modulo \<open>2^16\<close>, which is \<open>219 - (x + w - 1)\<close> itself for every width
  with \<open>x + w \<le> 220\<close>.
\<close>

theorem vertical_window_inversion:
  assumes "gpio_cs cfg \<noteq> gpio_rs cfg" and "uint x \<le> 219"
  shows
    "map uint (written_to MK_ILI9225_REG_VERT_WIN_ADDR1
        (reg_writes cfg (ili9225_fill_rect cfg x y w h color))) = [219 - uint x] \<and>
     map uint (written_to MK_ILI9225_REG_VERT_WIN_ADDR1
        (reg_writes cfg (ili9225_blit cfg fbuf x y w h))) = [219 - uint x] \<and>
     map uint (written_to MK_ILI9225_REG_VERT_WIN_ADDR2
        (reg_writes cfg (ili9225_fill_rect cfg x y w h color))) =
       [(219 - (uint x + uint w - 1)) mod 65536] \<and>
     map uint (written_to MK_ILI9225_REG_VERT_WIN_ADDR2
        (reg_writes cfg (ili9225_blit cfg fbuf x y w h))) =
       [(219 - (uint x + uint w - 1)) mod 65536] \<and>
     (uint x + uint w \<le> 220 \<longrightarrow>
        map uint (written_to MK_ILI9225_REG_VERT_WIN_ADDR2
          (reg_writes cfg (ili9225_fill_rect cfg x y w h color))) =
          [219 - (uint x + uint w - 1)] \<and>
        map uint (written_to MK_ILI9225_REG_VERT_WIN_ADDR2
          (reg_writes cfg (ili9225_blit cfg fbuf x y w h))) =
          [219 - (uint x + uint w - 1)])"
proof -
  have gram: "written_to r (replicate n (0x22, color)) = (if r = 0x22 then replicate n color else [])"
    for r n
    by (simp add: written_to_def)
  have v1f: "written_to 0x38 (reg_writes cfg (ili9225_fill_rect cfg x y w h color)) =
      [word_of_int (219 - uint x)]"
    by (simp add: reg_writes_fill_rect [OF assms(1)] written_to_Cons written_to_Nil
        written_to_append gram del: of_int_diff)
  have v1b: "written_to 0x38 (reg_writes cfg (ili9225_blit cfg fbuf x y w h)) =
      [word_of_int (219 - uint x)]"
    by (simp add: reg_writes_blit [OF assms(1)] written_to_Cons written_to_Nil
        written_to_append written_to_other del: of_int_diff)
  have v2f: "written_to 0x39 (reg_writes cfg (ili9225_fill_rect cfg x y w h color)) =
      [word_of_int (219 - (uint x + uint w - 1))]"
    by (simp add: reg_writes_fill_rect [OF assms(1)] written_to_Cons written_to_Nil
        written_to_append gram del: of_int_diff)
  have v2b: "written_to 0x39 (reg_writes cfg (ili9225_blit cfg fbuf x y w h)) =
      [word_of_int (219 - (uint x + uint w - 1))]"
    by (simp add: reg_writes_blit [OF assms(1)] written_to_Cons written_to_Nil
        written_to_append written_to_other del: of_int_diff)
  have x0: "0 \<le> uint x" and w0: "0 \<le> uint w"
    by simp_all
  have a: "(219 - uint x) mod 65536 = 219 - uint x"
    by (rule mod_pos_pos_trivial) (use assms(2) x0 in linarith)+
  have b: "(219 - (uint x + uint w - 1)) mod 65536 = 219 - (uint x + uint w - 1)"
    if "uint x + uint w \<le> 220"
    by (rule mod_pos_pos_trivial) (use that x0 w0 in linarith)+
  have u1: "uint (word_of_int (219 - uint x) :: u16) = 219 - uint x"
    using uint_u16_of_int [of "219 - uint x"] a by (simp only:)
  have u2: "uint (word_of_int (219 - (uint x + uint w - 1)) :: u16) =
      (219 - (uint x + uint w - 1)) mod 65536"
    by (rule uint_u16_of_int)
  show ?thesis
    unfolding MK_ILI9225_REG_VERT_WIN_ADDR1_def MK_ILI9225_REG_VERT_WIN_ADDR2_def
      v1f v1b v2f v2b
    by (simp only: list.map u1 u2 simp_thms) (use b in blast)
qed

theorem vertical_window_inversion_witness:
  "map uint (written_to 0x38 (reg_writes lcd_config (ili9225_fill_rect lcd_config 10 20 30 40 0xF800)))
     = [209] \<and>
   map uint (written_to 0x39 (reg_writes lcd_config (ili9225_fill_rect lcd_config 10 20 30 40 0xF800)))
     = [180] \<and>
   map uint (written_to 0x39 (reg_writes lcd_config (ili9225_blit lcd_config (replicate 1200 0) 10 20 30 40)))
     = [180]"
proof -
  have pins: "gpio_cs lcd_config \<noteq> gpio_rs lcd_config"
    by (simp add: lcd_config_def)
  from vertical_window_inversion [OF pins, of 10 20 30 40 "0xF800" "replicate 1200 0", simplified]
  show ?thesis
    by blast
qed

section \<open>Address helpers\<close>

lemma reg_writes_set_registers2:
  assumes "gpio_cs cfg \<noteq> gpio_rs cfg"
  shows "reg_writes cfg (set_register cfg r1 v1 @ set_register cfg r2 v2) = [(r1, v1), (r2, v2)]"
  using frames_from_set_register [OF assms, of True r2 v2 "[]"]
  by (simp add: reg_writes_def frames_def frames_from_set_register [OF assms])

lemma reg_writes_set_registers3:
  assumes "gpio_cs cfg \<noteq> gpio_rs cfg"
  shows "reg_writes cfg (set_register cfg r1 v1 @ set_register cfg r2 v2 @ set_register cfg r3 v3) =
      [(r1, v1), (r2, v2), (r3, v3)]"
  using frames_from_set_register [OF assms, of True r3 v3 "[]"]
  by (simp add: reg_writes_def frames_def frames_from_set_register [OF assms])

text \<open>
  Claim C9, as stated, at an input: with \<open>x = 220\<close>, \<^verbatim>\<open>ili9225_pixel\<close> writes 65535
  to the second RAM-address register, not \<open>219 - x = -1\<close>.
\<close>

theorem pixel_address_wraps:
  "\<not> (map uint (written_to MK_ILI9225_REG_RAM_ADDR_SET2
          (reg_writes lcd_config (ili9225_pixel lcd_config 220 0 0))) =
        [219 - uint (220 :: u8)])"
proof -
  have pins: "gpio_cs lcd_config \<noteq> gpio_rs lcd_config"
    by (simp add: lcd_config_def)
  show ?thesis
    by (simp add: ili9225_pixel_def reg_writes_set_registers3 [OF pins] written_to_def
        unsigned_minus_1_eq_mask mask_eq_exp_minus_1)
qed

text \<open>
  Claim C9, amended. For every \<open>(x, y)\<close>, \<^verbatim>\<open>ili9225_set_address(x, y)\<close> writes
  \<open>x\<close> to the first RAM-address register and \<open>y\<close> to the second, with no
  inversion; \<^verbatim>\<open>ili9225_pixel(x, y, color)\<close> writes \<open>y\<close> to the first and
  \<open>219 - x\<close> reduced modulo \<open>2^16\<close> to the second, which is \<open>219 - x\<close> itself for
  every \<open>x \<le> 219\<close>, and then \<open>color\<close> to the GRAM register. For every \<open>(x, y)\<close>
  the two functions leave different values in the pair of RAM-address registers.
\<close>

theorem address_conventions:
  assumes "gpio_cs cfg \<noteq> gpio_rs cfg"
  shows
    "map (\<lambda>(r, v). (r, uint v)) (reg_writes cfg (ili9225_set_address cfg x y)) =
       [(MK_ILI9225_REG_RAM_ADDR_SET1, uint x), (MK_ILI9225_REG_RAM_ADDR_SET2, uint y)] \<and>
     map (\<lambda>(r, v). (r, uint v)) (reg_writes cfg (ili9225_pixel cfg x y color)) =
       [(MK_ILI9225_REG_RAM_ADDR_SET1, uint y),
        (MK_ILI9225_REG_RAM_ADDR_SET2, (219 - uint x) mod 65536),
        (MK_ILI9225_REG_GRAM_RW, uint color)] \<and>
     (uint x \<le> 219 \<longrightarrow>
        map (\<lambda>(r, v). (r, uint v)) (reg_writes cfg (ili9225_pixel cfg x y color)) =
          [(MK_ILI9225_REG_RAM_ADDR_SET1, uint y),
           (MK_ILI9225_REG_RAM_ADDR_SET2, 219 - uint x),
           (MK_ILI9225_REG_GRAM_RW, uint color)]) \<and>
     take 2 (reg_writes cfg (ili9225_pixel cfg x y color)) \<noteq>
       reg_writes cfg (ili9225_set_address cfg x y)"
proof -
  have sa: "reg_writes cfg (ili9225_set_address cfg x y) = [(0x20, ucast x), (0x21, ucast y)]"
    by (simp add: ili9225_set_address_def reg_writes_set_registers2 [OF assms])
  have px: "reg_writes cfg (ili9225_pixel cfg x y color) =
      [(0x20, ucast y), (0x21, word_of_int (219 - uint x)), (0x22, color)]"
    by (simp add: ili9225_pixel_def reg_writes_set_registers3 [OF assms] del: of_int_diff)
  have ux: "uint (ucast x :: u16) = uint x" and uy: "uint (ucast y :: u16) = uint y"
    by (simp_all add: uint_up_ucast is_up)
  have u: "uint (word_of_int (219 - uint x) :: u16) = (219 - uint x) mod 65536"
    by (rule uint_u16_of_int)
  have x0: "0 \<le> uint x" and x255: "uint x < 256"
    using uint_lt2p [of x] by simp_all
  have small: "(219 - uint x) mod 65536 = 219 - uint x" if "uint x \<le> 219"
    by (rule mod_pos_pos_trivial) (use that x0 in linarith)+
  have differ: "(219 - uint x) mod 65536 \<noteq> uint x"
  proof (cases "uint x \<le> 219")
    case True
    have "219 - uint x \<noteq> uint x"
      by presburger
    with small [OF True] show ?thesis
      by (simp only: not_False_eq_True)
  next
    case False
    have "(219 - uint x + 65536) mod 65536 = 219 - uint x + 65536"
      by (rule mod_pos_pos_trivial) (use False x255 in linarith)+
    moreover have "(219 - uint x + 65536) mod 65536 = (219 - uint x) mod 65536"
      by (rule mod_add_self2)
    ultimately have "(219 - uint x) mod 65536 = 219 - uint x + 65536"
      by (simp only:)
    moreover have "219 - uint x + 65536 \<noteq> uint x"
      using x255 by linarith
    ultimately show ?thesis
      by (simp only: not_False_eq_True)
  qed
  have ne: "take 2 (reg_writes cfg (ili9225_pixel cfg x y color)) \<noteq>
      reg_writes cfg (ili9225_set_address cfg x y)"
  proof
    assume "take 2 (reg_writes cfg (ili9225_pixel cfg x y color)) =
      reg_writes cfg (ili9225_set_address cfg x y)"
    then have e1: "(ucast y :: u16) = ucast x"
      and e2: "(word_of_int (219 - uint x) :: u16) = ucast y"
      unfolding sa px by simp_all
    from e1 have "uint (ucast y :: u16) = uint (ucast x :: u16)" by simp
    then have xy: "uint y = uint x" by (simp only: ux uy)
    from e2 have "uint (word_of_int (219 - uint x) :: u16) = uint (ucast y :: u16)" by simp
    then have "(219 - uint x) mod 65536 = uint y" by (simp only: u uy)
    with xy differ show False by simp
  qed
  have m1: "map (\<lambda>(r, v). (r, uint v)) (reg_writes cfg (ili9225_set_address cfg x y)) =
       [(0x20, uint x), (0x21, uint y)]"
    unfolding sa by (simp only: list.map prod.case ux uy)
  have m2: "map (\<lambda>(r, v). (r, uint v)) (reg_writes cfg (ili9225_pixel cfg x y color)) =
       [(0x20, uint y), (0x21, (219 - uint x) mod 65536), (0x22, uint color)]"
    unfolding px by (simp only: list.map prod.case u uy)
  show ?thesis
    unfolding MK_ILI9225_REG_RAM_ADDR_SET1_def MK_ILI9225_REG_RAM_ADDR_SET2_def
      MK_ILI9225_REG_GRAM_RW_def m1 m2
    using ne small by simp
qed

theorem address_conventions_witness:
  "map (\<lambda>(r, v). (r, uint v)) (reg_writes lcd_config (ili9225_set_address lcd_config 5 7)) =
     [(0x20, 5), (0x21, 7)] \<and>
   map (\<lambda>(r, v). (r, uint v)) (reg_writes lcd_config (ili9225_pixel lcd_config 5 7 0xFFFF)) =
     [(0x20, 7), (0x21, 214), (0x22, 65535)]"
proof -
  have pins: "gpio_cs lcd_config \<noteq> gpio_rs lcd_config"
    by (simp add: lcd_config_def)
  from address_conventions [OF pins, of 5 7 "0xFFFF", simplified]
  show ?thesis
    by blast
qed

section \<open>Identification check\<close>

lemma count_read_set_register: "count_list (set_register cfg r v) Spi_read16 = 0"
  by (simp add: set_register_trace)

lemma count_read_set_registers: "count_list (set_registers cfg ps) Spi_read16 = 0"
  by (induction ps) (auto simp: count_read_set_register)

lemma count_read_init_platform: "count_list (init_platform cfg) Spi_read16 = 0"
  by (simp add: init_platform_def)

text \<open>
  Claim C10. Built without read capability (MK_ILI9225_READ_AVAILABLE is 0),
  \<^verbatim>\<open>ili9225_init\<close> returns 0 for every configuration and whatever the device would
  answer, and its trace holds no read of the bus.
\<close>

theorem init_without_read:
  "fst (snd (ili9225_init False answer cfg d)) = 0 \<and>
   count_list (fst (ili9225_init False answer cfg d)) Spi_read16 = 0"
  by (simp add: ili9225_init_def init_id_check_def ili9225_init_trace_def
      count_read_set_register count_read_set_registers count_read_init_platform pin_defs)

text \<open>
  Claim C2, as stated, at an input: when the device answers 0xFFFF (a bus that floats
  high), \<^verbatim>\<open>ili9225_init\<close> returns 0xFFFF9226 = 4294939174, which is neither
  \<open>0x9225 - 0xFFFF\<close> nor \<open>0xFFFF - 0x9225\<close>.
\<close>

theorem init_id_wraps:
  "uint (fst (snd (ili9225_init True 0xFFFF lcd_config (power_on_driver lcd_config))))
     \<noteq> 0x9225 - uint (0xFFFF :: u16) \<and>
   uint (fst (snd (ili9225_init True 0xFFFF lcd_config (power_on_driver lcd_config))))
     \<noteq> uint (0xFFFF :: u16) - 0x9225"
  by (simp add: ili9225_init_def init_id_check_def get_register_value)

text \<open>
  Claim C2, amended. Built with read capability, \<^verbatim>\<open>ili9225_init\<close> ends with
  \<^verbatim>\<open>get_register\<close> on the identification register: it selects register index 0x00
  with register-select low, then reads the bus once with register-select high, and
  returns \<open>0x9225 - v\<close> computed in unsigned 32-bit arithmetic, \<open>v\<close> being the
  halfword read back: that is \<open>(0x9225 - v) mod 2^32\<close>, the difference itself when
  \<open>v \<le> 0x9225\<close> and \<open>2^32 - (v - 0x9225)\<close> when \<open>v > 0x9225\<close>. The result is
  zero if and only if \<open>v = 0x9225\<close>.
\<close>

theorem init_id_difference:
  "fst (snd (ili9225_init True answer cfg d)) = 0x9225 - ucast answer \<and>
   uint (fst (snd (ili9225_init True answer cfg d))) = (0x9225 - uint answer) mod 4294967296 \<and>
   (fst (snd (ili9225_init True answer cfg d)) = 0) = (answer = 0x9225) \<and>
   (uint answer \<le> 0x9225 \<longrightarrow>
      uint (fst (snd (ili9225_init True answer cfg d))) = 0x9225 - uint answer) \<and>
   (0x9225 < uint answer \<longrightarrow>
      uint (fst (snd (ili9225_init True answer cfg d))) = 4294967296 - (uint answer - 0x9225)) \<and>
   count_list (fst (ili9225_init True answer cfg d)) Spi_read16 = 1 \<and>
   fst (ili9225_init True answer cfg d) =
     fst (ili9225_init False answer cfg d) @
     [Gpio_put (gpio_rs cfg) False, Gpio_put (gpio_cs cfg) False,
      Spi_write16_blocking (spi cfg) [MK_ILI9225_REG_DRIVER_CODE_READ],
      Gpio_put (gpio_cs cfg) True,
      Gpio_put (gpio_rs cfg) True, Gpio_put (gpio_cs cfg) False,
      Spi_read16,
      Gpio_put (gpio_cs cfg) True] \<and>
   get_register cfg answer MK_ILI9225_REG_DRIVER_CODE_READ =
     ([Gpio_put (gpio_rs cfg) False, Gpio_put (gpio_cs cfg) False,
       Spi_write16_blocking (spi cfg) [MK_ILI9225_REG_DRIVER_CODE_READ],
       Gpio_put (gpio_cs cfg) True,
       Gpio_put (gpio_rs cfg) True, Gpio_put (gpio_cs cfg) False,
       Spi_read16,
       Gpio_put (gpio_cs cfg) True], answer)"
proof -
  have ret: "fst (snd (ili9225_init True answer cfg d)) = 0x9225 - ucast answer"
    by (simp add: ili9225_init_def init_id_check_def get_register_value)
  have a0: "0 \<le> uint answer" and a1: "uint answer < 65536"
    using uint_lt2p [of answer] by simp_all
  have uc: "uint (ucast answer :: u32) = uint answer"
    by (simp add: uint_up_ucast is_up)
  have u: "uint (0x9225 - ucast answer :: u32) = (0x9225 - uint answer) mod 4294967296"
    by (simp add: uint_word_ariths uc take_bit_eq_mod)
  have le: "(0x9225 - uint answer) mod 4294967296 = 0x9225 - uint answer"
    if "uint answer \<le> 0x9225"
    by (rule mod_pos_pos_trivial) (use that a0 in linarith)+
  have gt: "(0x9225 - uint answer) mod 4294967296 = 4294967296 - (uint answer - 0x9225)"
    if "0x9225 < uint answer"
  proof -
    have "(0x9225 - uint answer + 4294967296) mod 4294967296 = 0x9225 - uint answer + 4294967296"
      by (rule mod_pos_pos_trivial) (use that a1 in linarith)+
    moreover have "(0x9225 - uint answer + 4294967296) mod 4294967296 =
        (0x9225 - uint answer) mod 4294967296"
      by (rule mod_add_self2)
    ultimately show ?thesis by linarith
  qed
  have zero: "(0x9225 - ucast answer = (0 :: u32)) = (answer = 0x9225)"
  proof
    assume "0x9225 - ucast answer = (0 :: u32)"
    then have "uint (0x9225 - ucast answer :: u32) = 0" by simp
    with u have m: "(0x9225 - uint answer) mod 4294967296 = 0" by simp
    have "uint answer = 0x9225"
    proof (cases "uint answer \<le> 0x9225")
      case True
      with le m show ?thesis by linarith
    next
      case False
      then have "0x9225 < uint answer" by linarith
      from gt [OF this] m a1 show ?thesis by linarith
    qed
    then have "uint answer = uint (0x9225 :: u16)" by simp
    then show "answer = 0x9225" by (simp only: word_uint_eq_iff)
  next
    assume "answer = 0x9225"
    then show "0x9225 - ucast answer = (0 :: u32)" by simp
  qed
  have rd: "count_list (fst (ili9225_init True answer cfg d)) Spi_read16 = 1"
    by (simp add: ili9225_init_def init_id_check_def ili9225_init_trace_def get_register_trace
      count_read_set_register count_read_set_registers count_read_init_platform pin_defs)
  have main: "fst (snd (ili9225_init True answer cfg d)) = 0x9225 - ucast answer \<and>
     uint (fst (snd (ili9225_init True answer cfg d))) = (0x9225 - uint answer) mod 4294967296 \<and>
     (fst (snd (ili9225_init True answer cfg d)) = 0) = (answer = 0x9225) \<and>
     (uint answer \<le> 0x9225 \<longrightarrow>
        uint (fst (snd (ili9225_init True answer cfg d))) = 0x9225 - uint answer) \<and>
     (0x9225 < uint answer \<longrightarrow>
        uint (fst (snd (ili9225_init True answer cfg d))) = 4294967296 - (uint answer - 0x9225)) \<and>
     count_list (fst (ili9225_init True answer cfg d)) Spi_read16 = 1"
    unfolding ret using u le gt zero rd [unfolded ret]
    by (simp only: simp_thms) blast
  have tail: "fst (ili9225_init True answer cfg d) =
     fst (ili9225_init False answer cfg d) @
     [Gpio_put (gpio_rs cfg) False, Gpio_put (gpio_cs cfg) False,
      Spi_write16_blocking (spi cfg) [0x00], Gpio_put (gpio_cs cfg) True,
      Gpio_put (gpio_rs cfg) True, Gpio_put (gpio_cs cfg) False,
      Spi_read16, Gpio_put (gpio_cs cfg) True]"
    by (simp add: ili9225_init_def ili9225_init_trace_def init_id_check_def get_register_trace)
  have gr: "get_register cfg answer 0x00 =
     ([Gpio_put (gpio_rs cfg) False, Gpio_put (gpio_cs cfg) False,
       Spi_write16_blocking (spi cfg) [0x00], Gpio_put (gpio_cs cfg) True,
       Gpio_put (gpio_rs cfg) True, Gpio_put (gpio_cs cfg) False,
       Spi_read16, Gpio_put (gpio_cs cfg) True], answer)"
    using get_register_trace [of cfg answer "0x00"] get_register_value [of cfg answer "0x00"]
    by (simp add: prod_eq_iff)
  from main tail gr show ?thesis
    unfolding MK_ILI9225_REG_DRIVER_CODE_READ_def by blast
qed

theorem init_id_difference_witness:
  "uint (fst (snd (ili9225_init True 0x1234 lcd_config (power_on_driver lcd_config)))) = 0x7FF1 \<and>
   uint (fst (snd (ili9225_init True 0xFFFF lcd_config (power_on_driver lcd_config)))) = 4294939174 \<and>
   fst (snd (ili9225_init True 0x9225 lcd_config (power_on_driver lcd_config))) = 0"
  using init_id_difference [of "0x1234" lcd_config "power_on_driver lcd_config", simplified]
    init_id_difference [of "0xFFFF" lcd_config "power_on_driver lcd_config", simplified]
    init_id_difference [of "0x9225" lcd_config "power_on_driver lcd_config", simplified]
  by blast

section \<open>Window\<close>

lemma reg_writes_set_registers6:
  assumes "gpio_cs cfg \<noteq> gpio_rs cfg"
  shows "reg_writes cfg (set_register cfg r1 v1 @ set_register cfg r2 v2 @ set_register cfg r3 v3 @
      set_register cfg r4 v4 @ set_register cfg r5 v5 @ set_register cfg r6 v6) =
      [(r1, v1), (r2, v2), (r3, v3), (r4, v4), (r5, v5), (r6, v6)]"
  using frames_from_set_register [OF assms, of True r6 v6 "[]"]
  by (simp add: reg_writes_def frames_def frames_from_set_register [OF assms])

text \<open>
  Claim C4. \<^verbatim>\<open>ili9225_set_window\<close> checks
  \<open>hor_start < hor_end < 176\<close> and \<open>vert_start < vert_end < 220\<close> first: when
  the check fails the call aborts with an empty trace, so no register has been written;
  when it holds the call returns after writing \<open>hor_end\<close>, \<open>hor_start\<close>,
  \<open>vert_end\<close>, \<open>vert_start\<close> to the four window registers and then
  \<open>hor_start\<close>, \<open>vert_start\<close> to the two RAM-address registers.
\<close>

theorem set_window_checked:
  "(\<not> (uint hs < uint he \<and> uint he < 176 \<and> uint vs < uint ve \<and> uint ve < 220) \<longrightarrow>
      ili9225_set_window cfg hs he vs ve = ([], Inl Assertion_failed)) \<and>
   ((uint hs < uint he \<and> uint he < 176 \<and> uint vs < uint ve \<and> uint ve < 220) \<longrightarrow>
      snd (ili9225_set_window cfg hs he vs ve) = Inr () \<and>
      fst (ili9225_set_window cfg hs he vs ve) =
        set_register cfg MK_ILI9225_REG_HORI_WIN_ADDR1 he @
        set_register cfg MK_ILI9225_REG_HORI_WIN_ADDR2 hs @
        set_register cfg MK_ILI9225_REG_VERT_WIN_ADDR1 ve @
        set_register cfg MK_ILI9225_REG_VERT_WIN_ADDR2 vs @
        set_register cfg MK_ILI9225_REG_RAM_ADDR_SET1 hs @
        set_register cfg MK_ILI9225_REG_RAM_ADDR_SET2 vs \<and>
      (gpio_cs cfg \<noteq> gpio_rs cfg \<longrightarrow>
         reg_writes cfg (fst (ili9225_set_window cfg hs he vs ve)) =
           [(MK_ILI9225_REG_HORI_WIN_ADDR1, he), (MK_ILI9225_REG_HORI_WIN_ADDR2, hs),
            (MK_ILI9225_REG_VERT_WIN_ADDR1, ve), (MK_ILI9225_REG_VERT_WIN_ADDR2, vs),
            (MK_ILI9225_REG_RAM_ADDR_SET1, hs), (MK_ILI9225_REG_RAM_ADDR_SET2, vs)]))"
proof -
  have he: "((ucast he :: u32) < SCREEN_SIZE_X) = (uint he < 176)"
    by (simp add: SCREEN_SIZE_X_def word_less_def uint_up_ucast is_up)
  have ve: "((ucast ve :: u32) < SCREEN_SIZE_Y) = (uint ve < 220)"
    by (simp add: SCREEN_SIZE_Y_def word_less_def uint_up_ucast is_up)
  have hs: "(hs < he) = (uint hs < uint he)" and vs: "(vs < ve) = (uint vs < uint ve)"
    by (simp_all add: word_less_def)
  show ?thesis
    by (auto simp add: ili9225_set_window_def he ve hs vs
        reg_writes_set_registers6)
qed

theorem set_window_checked_witness:
  "ili9225_set_window lcd_config 10 10 0 5 = ([], Inl Assertion_failed) \<and>
   ili9225_set_window lcd_config 0 176 0 5 = ([], Inl Assertion_failed) \<and>
   ili9225_set_window lcd_config 0 5 0 220 = ([], Inl Assertion_failed) \<and>
   snd (ili9225_set_window lcd_config 0 175 0 219) = Inr () \<and>
   reg_writes lcd_config (fst (ili9225_set_window lcd_config 0 175 0 219)) =
     [(0x36, 175), (0x37, 0), (0x38, 219), (0x39, 0), (0x20, 0), (0x21, 0)]"
proof -
  have pins: "gpio_cs lcd_config \<noteq> gpio_rs lcd_config"
    by (simp add: lcd_config_def)
  from set_window_checked [of 10 10 0 5 lcd_config, simplified]
    set_window_checked [of 0 176 0 5 lcd_config, simplified]
    set_window_checked [of 0 5 0 220 lcd_config, simplified]
    set_window_checked [of 0 175 0 219 lcd_config, simplified] pins
  show ?thesis
    by blast
qed

section \<open>Completion interrupt of the asynchronous transfer\<close>

lemma installs_set_register: "filter installs_handler (set_register cfg r v) = []"
  by (simp add: set_register_trace)

lemma installs_set_registers: "filter installs_handler (set_registers cfg ps) = []"
  by (induction ps) (auto simp: installs_set_register)

lemma installs_init: "filter installs_handler (ili9225_init_trace ra answer cfg) = []"
  by (simp add: ili9225_init_trace_def init_platform_def init_id_check_def get_register_trace
      installs_set_register installs_set_registers pin_defs)

lemma installs_set_address: "filter installs_handler (ili9225_set_address cfg x y) = []"
  by (simp add: ili9225_set_address_def installs_set_register)

lemma installs_dma_write: "filter installs_handler (ili9225_dma_write d data len) = []"
  by (simp add: ili9225_dma_write_def ili9225_write_pixels_start_def write_register_def pin_defs)

lemma installs_finish: "filter installs_handler (fst (ili9225_dma_finish_callback d)) = []"
  by (simp add: ili9225_dma_finish_callback_def ili9225_write_pixels_end_def
      call_finish_callback_def pin_defs split: option.split)

lemma installs_set_window:
  "filter installs_handler (fst (ili9225_set_window cfg hs he vs ve)) = []"
  by (simp add: ili9225_set_window_def installs_set_register)

lemma installs_write_pixels:
  "filter installs_handler (fst (ili9225_write_pixels cfg pixels nmemb)) = []"
  by (simp add: ili9225_write_pixels_def write_register_def pin_defs split: option.split)

lemma installs_fill_rect:
  "filter installs_handler (ili9225_fill_rect cfg x y w h color) = []"
  by (simp add: ili9225_fill_rect_def installs_set_register fill_loop_unroll
      write_register_def pin_defs)

lemma installs_pixel: "filter installs_handler (ili9225_pixel cfg x y color) = []"
  by (simp add: ili9225_pixel_def installs_set_register)

lemma installs_blit: "filter installs_handler (ili9225_blit cfg fbuf x y w h) = []"
  by (simp add: ili9225_blit_def installs_set_register write_register_def pin_defs)

lemma installed_iff:
  "(\<exists>num. Irq_set_exclusive_handler num \<in> set tr) = (filter installs_handler tr \<noteq> [])"
proof (induction tr)
  case Nil
  show ?case by simp
next
  case (Cons e tr)
  then show ?case by (cases e) auto
qed

lemma history_invariant:
  assumes "history tr d"
  shows "dma_tx d = 0 \<and>
    (filter installs_handler tr \<noteq> [] \<longrightarrow> dma_irq d = DMA_IRQ_0 \<or> dma_irq d = DMA_IRQ_1)"
  using assms
proof (induction rule: history.induct)
  case (power_on z)
  show ?case by (simp add: power_on_driver_def)
next
  case (init tr d ra answer config)
  then show ?case by (simp add: ili9225_init_def installs_init)
next
  case (set_handler tr d num cb)
  then show ?case by (auto simp: ili9225_set_dma_irq_handler_def)
next
  case (set_window tr d hs he vs ve)
  then show ?case by (simp add: installs_set_window)
next
  case (set_address tr d x y)
  then show ?case by (simp add: installs_set_address)
next
  case (write_pixels tr d pixels nmemb)
  then show ?case by (simp add: installs_write_pixels)
next
  case (fill_rect tr d x y w h color)
  then show ?case by (simp add: installs_fill_rect)
next
  case (pixel tr d x y color)
  then show ?case by (simp add: installs_pixel)
next
  case (blit tr d fbuf x y w h)
  then show ?case by (simp add: installs_blit)
next
  case (dma_write tr d data len)
  then show ?case by (simp add: installs_dma_write)
next
  case (interrupt tr d num)
  then show ?case by (simp add: installs_finish)
qed

text \<open>
  Claim C6. In every history of the driver in which the handler has been installed and
  a callback is registered, one run of the interrupt handler raises chip-select (the
  end-of-write operation), then clears the pending flag of the channel on the
  registered line, then calls the registered callback, once, and returns. A
  \<^verbatim>\<open>ili9225_dma_write\<close> followed by the handler run of its completion contains exactly
  one call of the callback.
\<close>

theorem dma_completion_callback:
  assumes "history tr d"
    and "Irq_set_exclusive_handler num \<in> set tr"
    and "f_dma_finish_callback d = Some cb"
  shows "ili9225_dma_finish_callback d =
      (ili9225_write_pixels_end (ili9225_cfg d) @
       [Dma_channel_set_irq0_enabled 0 True,
        (if dma_irq d = DMA_IRQ_0 then Dma_ints0_store 1 else Dma_ints1_store 1),
        User_callback cb], Inr ()) \<and>
    ili9225_write_pixels_end (ili9225_cfg d) = [Gpio_put (gpio_cs (ili9225_cfg d)) True] \<and>
    callbacks (ili9225_dma_write d data len @ fst (ili9225_dma_finish_callback d)) = [cb]"
proof -
  from assms(2) have "filter installs_handler tr \<noteq> []"
    using installed_iff [of tr] by blast
  with history_invariant [OF assms(1)]
  have tx: "dma_tx d = 0" and line: "dma_irq d = DMA_IRQ_0 \<or> dma_irq d = DMA_IRQ_1"
    by simp_all
  have e: "ili9225_write_pixels_end (ili9225_cfg d) = [Gpio_put (gpio_cs (ili9225_cfg d)) True]"
    by (simp add: ili9225_write_pixels_end_def pin_defs)
  have h: "ili9225_dma_finish_callback d =
      (ili9225_write_pixels_end (ili9225_cfg d) @
       [Dma_channel_set_irq0_enabled 0 True,
        (if dma_irq d = DMA_IRQ_0 then Dma_ints0_store 1 else Dma_ints1_store 1),
        User_callback cb], Inr ())"
    using line
    by (auto simp: ili9225_dma_finish_callback_def call_finish_callback_def tx assms(3))
  have w: "callbacks (ili9225_dma_write d data len) = []"
    by (simp add: ili9225_dma_write_def ili9225_write_pixels_start_def write_register_def pin_defs)
  have "callbacks (fst (ili9225_dma_finish_callback d)) = [cb]"
    unfolding h e by simp
  with h e w show ?thesis
    by (simp only: callbacks_append append_Nil simp_thms)
qed

theorem dma_completion_callback_witness:
  "ili9225_dma_finish_callback
     (snd (ili9225_set_dma_irq_handler DMA_IRQ_0 (Some 7) (power_on_driver lcd_config))) =
     ([Gpio_put 17 True, Dma_channel_set_irq0_enabled 0 True, Dma_ints0_store 1, User_callback 7],
      Inr ())"
proof -
  define d where "d = snd (ili9225_set_dma_irq_handler DMA_IRQ_0 (Some 7) (power_on_driver lcd_config))"
  define tr where "tr = [] @ fst (ili9225_set_dma_irq_handler DMA_IRQ_0 (Some 7) (power_on_driver lcd_config))"
  have hist: "history tr d"
    unfolding tr_def d_def by (rule history.set_handler [OF history.power_on])
  have inst: "Irq_set_exclusive_handler DMA_IRQ_0 \<in> set tr"
    by (simp add: tr_def ili9225_set_dma_irq_handler_def)
  have cb: "f_dma_finish_callback d = Some 7"
    by (simp add: d_def ili9225_set_dma_irq_handler_def)
  have irq: "dma_irq d = DMA_IRQ_0" and pin: "gpio_cs (ili9225_cfg d) = 17"
    by (simp_all add: d_def ili9225_set_dma_irq_handler_def power_on_driver_def lcd_config_def)
  from dma_completion_callback [OF hist inst cb, of "[]" 0] irq pin
  show ?thesis
    unfolding d_def [symmetric] by simp
qed

end
